theory Spec2Isabelle
  imports Main "HOL-Library.Word"
begin

unbundle bit_operations_syntax

section \<open>C64 KRV switcher: the sketch \<^verbatim>\<open>c64krvsw.ino\<close> (v1.1) as state transformers\<close>

text \<open>
  The sketch is a set of global variables, two interrupt service routines and the
  Arduino entry points \<^verbatim>\<open>setup()\<close> and \<^verbatim>\<open>loop()\<close>. Every C function becomes a
  function from the state record to the state record. What the sketch reads from the
  outside (port C, the RESTORE pin) is an argument of the function that reads it; what
  it does to the outside (pin writes, pin directions, EEPROM writes, busy waits) is
  recorded twice: in the fields \<open>pin_level\<close>, \<open>pin_mode\<close> and \<open>eeprom\<close>, and, in
  program order, in the field \<open>actions\<close>.
\<close>

subsection \<open>Data\<close>

type_synonym byte = "8 word"

text \<open>The pins of the \<^verbatim>\<open>const int\<close> pin table (lines 72-86); the numbers are pairwise distinct.\<close>

datatype pin =
  Row0 | Row3 | KSW_A13 | KSW_A14 | KSW_A15 | NeN | PeN | C64RES | EXROMRES
  | Col1 | Col2 | Col3 | Col4 | Col7 | RESTOREPin

datatype level = LOW | HIGH

datatype pmode = INPUT | OUTPUT | INPUT_PULLUP

datatype action =
  PinMode pin pmode
  | DigitalWrite pin level
  | Delay nat
  | DelayMicroseconds nat
  | EepromWrite nat byte
  | AttachInterrupt pin

abbreviation (input) KMax :: byte where "KMax \<equiv> 8"
abbreviation (input) KernalSlot :: nat where "KernalSlot \<equiv> 0"
abbreviation (input) ScanActiveSlot :: nat where "ScanActiveSlot \<equiv> 1"
abbreviation (input) NPModeSlot :: nat where "NPModeSlot \<equiv> 2"
abbreviation (input) Default_Scan_Count :: int where "Default_Scan_Count \<equiv> 10000"
abbreviation (input) Default_Restore_Count :: int where "Default_Restore_Count \<equiv> 5000"

text \<open>
  The global variables (lines 95-109), the EEPROM, and the pins. The two counters are
  C \<^verbatim>\<open>int\<close>s; the sketch only ever assigns them a default or decrements them while they
  are positive, so they are modelled as unbounded integers. \<open>pin_level\<close> is the level
  last written to a pin with \<^verbatim>\<open>digitalWrite\<close>, \<open>pin_mode\<close> the direction last set with
  \<^verbatim>\<open>pinMode\<close>.
\<close>

record state =
  kernal_num :: byte
  kernal_addr :: byte
  np_mode :: byte
  restore_found :: bool
  restore_counter :: int
  key :: byte
  columns :: byte
  scan_counter :: int
  scan_found :: bool
  scan_active :: byte
  numPressed :: bool
  numOdd :: bool
  colData :: byte
  eeprom :: "nat \<Rightarrow> byte"
  pin_mode :: "pin \<Rightarrow> pmode"
  pin_level :: "pin \<Rightarrow> level"
  actions :: "action list"

text \<open>
  The state at power-on: the initialisers of lines 95-109 over a given EEPROM content.
  \<^verbatim>\<open>columns\<close>, \<^verbatim>\<open>scan_counter\<close> and \<^verbatim>\<open>scan_found\<close> are declared without one and start,
  as C globals do, at zero. No pin has been configured or written yet.
\<close>

definition power_on :: "(nat \<Rightarrow> byte) \<Rightarrow> state" where
  "power_on ee =
    \<lparr> kernal_num = 0, kernal_addr = 0, np_mode = 1, restore_found = False,
      restore_counter = 0, key = 128, columns = 0, scan_counter = 0, scan_found = False,
      scan_active = 1, numPressed = False, numOdd = False, colData = 0x1F,
      eeprom = ee, pin_mode = (\<lambda>p. INPUT), pin_level = (\<lambda>p. LOW), actions = [] \<rparr>"

text \<open>An erased EEPROM reads \<open>0xFF\<close> everywhere.\<close>

definition erased_eeprom :: "nat \<Rightarrow> byte" where
  "erased_eeprom a = 0xFF"

subsection \<open>The Arduino primitives the sketch calls\<close>

definition pinMode :: "pin \<Rightarrow> pmode \<Rightarrow> state \<Rightarrow> state" where
  "pinMode p m s = s\<lparr>pin_mode := (pin_mode s)(p := m), actions := actions s @ [PinMode p m]\<rparr>"

definition digitalWrite :: "pin \<Rightarrow> level \<Rightarrow> state \<Rightarrow> state" where
  "digitalWrite p v s =
     s\<lparr>pin_level := (pin_level s)(p := v), actions := actions s @ [DigitalWrite p v]\<rparr>"

definition delay :: "nat \<Rightarrow> state \<Rightarrow> state" where
  "delay ms s = s\<lparr>actions := actions s @ [Delay ms]\<rparr>"

definition delayMicroseconds :: "nat \<Rightarrow> state \<Rightarrow> state" where
  "delayMicroseconds us s = s\<lparr>actions := actions s @ [DelayMicroseconds us]\<rparr>"

definition EEPROM_read :: "nat \<Rightarrow> state \<Rightarrow> byte" where
  "EEPROM_read a s = eeprom s a"

definition EEPROM_write :: "nat \<Rightarrow> byte \<Rightarrow> state \<Rightarrow> state" where
  "EEPROM_write a v s =
     s\<lparr>eeprom := (eeprom s)(a := v), actions := actions s @ [EepromWrite a v]\<rparr>"

definition attachInterrupt :: "pin \<Rightarrow> state \<Rightarrow> state" where
  "attachInterrupt p s = s\<lparr>actions := actions s @ [AttachInterrupt p]\<rparr>"

subsection \<open>Reset, address bits, video bits (lines 168-253)\<close>

definition systemRESET :: "state \<Rightarrow> state" where
  "systemRESET s =
    (let s = digitalWrite C64RES HIGH s;
         s = pinMode C64RES INPUT s;
         s = digitalWrite C64RES HIGH s;
         s = digitalWrite EXROMRES LOW s;
         s = pinMode EXROMRES OUTPUT s;
         s = digitalWrite EXROMRES LOW s
     in s)"

definition systemUNRESET :: "state \<Rightarrow> state" where
  "systemUNRESET s =
    (let s = delay 200 s;
         s = digitalWrite C64RES LOW s;
         s = pinMode C64RES OUTPUT s;
         s = digitalWrite C64RES LOW s;
         s = delay 300 s;
         s = digitalWrite EXROMRES HIGH s;
         s = pinMode EXROMRES INPUT s;
         s = digitalWrite EXROMRES HIGH s
     in s)"

definition SetAddressBits :: "byte \<Rightarrow> state \<Rightarrow> state" where
  "SetAddressBits addr s =
    (let s = (if addr AND 1 = 0 then digitalWrite KSW_A13 LOW s
              else digitalWrite KSW_A13 HIGH s);
         s = (if addr AND 2 = 0 then digitalWrite KSW_A14 LOW s
              else digitalWrite KSW_A14 HIGH s);
         s = (if addr AND 4 = 0 then digitalWrite KSW_A15 LOW s
              else digitalWrite KSW_A15 HIGH s)
     in s)"

definition SetVideoBits :: "byte \<Rightarrow> state \<Rightarrow> state" where
  "SetVideoBits addr s =
    (if addr = 0 then
       (let s = digitalWrite NeN LOW s;
            s = digitalWrite PeN HIGH s;
            s = delay 500 s;
            s = digitalWrite PeN LOW s
        in s)
     else
       (let s = digitalWrite NeN HIGH s;
            s = digitalWrite PeN LOW s;
            s = delay 500 s;
            s = digitalWrite NeN LOW s
        in s))"

definition SwitchKernal :: "state \<Rightarrow> state" where
  "SwitchKernal s =
    (let s = systemRESET s;
         s = SetAddressBits (kernal_addr s) s;
         s = delay 2000 s;
         s = systemUNRESET s;
         s = delay 2000 s;
         s = s\<lparr>scan_counter := Default_Scan_Count\<rparr>;
         s = (if scan_active s = 1 then s\<lparr>scan_found := False\<rparr>
              else s\<lparr>scan_found := True\<rparr>)
     in s)"

definition SwitchVideo :: "state \<Rightarrow> state" where
  "SwitchVideo s =
    (let s = systemRESET s;
         s = SetVideoBits (np_mode s) s;
         s = delay 2000 s;
         s = systemUNRESET s;
         s = delay 2000 s;
         s = s\<lparr>scan_counter := Default_Scan_Count\<rparr>;
         s = (if scan_active s = 1 then s\<lparr>scan_found := False\<rparr>
              else s\<lparr>scan_found := True\<rparr>)
     in s)"

subsection \<open>\<^verbatim>\<open>setup()\<close> (lines 111-166)\<close>

text \<open>
  The body of \<^verbatim>\<open>setup()\<close> in its three blocks: the pin directions (lines 112-127), the
  three values read from the EEPROM and checked (lines 129-148), and the first reset
  with the selection applied (lines 150-165). \<open>setup_sketch\<close> runs them in this order.
\<close>

definition setup_pins :: "state \<Rightarrow> state" where
  "setup_pins s =
    (let s = pinMode Row0 INPUT_PULLUP s;
         s = pinMode Row3 INPUT_PULLUP s;
         s = pinMode Col1 INPUT_PULLUP s;
         s = pinMode Col2 INPUT_PULLUP s;
         s = pinMode Col3 INPUT_PULLUP s;
         s = pinMode Col4 INPUT_PULLUP s;
         s = pinMode Col7 INPUT_PULLUP s;
         s = pinMode RESTOREPin INPUT_PULLUP s;
         s = pinMode KSW_A13 OUTPUT s;
         s = pinMode KSW_A14 OUTPUT s;
         s = pinMode KSW_A15 OUTPUT s;
         s = pinMode NeN OUTPUT s;
         s = pinMode PeN OUTPUT s;
         s = pinMode C64RES OUTPUT s;
         s = pinMode EXROMRES INPUT s
     in s)"

definition setup_load :: "state \<Rightarrow> state" where
  "setup_load s =
    (let s = s\<lparr>kernal_num := EEPROM_read KernalSlot s\<rparr>;
         s = (if kernal_num s < 1 \<or> kernal_num s > KMax then
                (let s = s\<lparr>kernal_num := 1\<rparr> in EEPROM_write KernalSlot (kernal_num s) s)
              else s);
         s = s\<lparr>kernal_addr := kernal_num s - 1\<rparr>;
         s = s\<lparr>scan_active := EEPROM_read ScanActiveSlot s\<rparr>;
         s = (if scan_active s \<noteq> 0 \<and> scan_active s \<noteq> 1 then
                (let s = s\<lparr>scan_active := 1\<rparr> in EEPROM_write ScanActiveSlot (scan_active s) s)
              else s);
         s = s\<lparr>np_mode := EEPROM_read NPModeSlot s\<rparr>;
         s = (if np_mode s \<noteq> 0 \<and> np_mode s \<noteq> 1 then
                (let s = s\<lparr>np_mode := 1\<rparr> in EEPROM_write NPModeSlot (np_mode s) s)
              else s)
     in s)"

definition setup_apply :: "state \<Rightarrow> state" where
  "setup_apply s =
    (let s = systemRESET s;
         s = SetAddressBits (kernal_addr s) s;
         s = SetVideoBits (np_mode s) s;
         s = s\<lparr>scan_counter := Default_Scan_Count\<rparr>;
         s = s\<lparr>scan_found := False\<rparr>;
         s = (if scan_active s = 0 then s\<lparr>scan_found := True\<rparr> else s);
         s = attachInterrupt Row0 s;
         s = attachInterrupt Row3 s;
         s = systemUNRESET s
     in s)"

definition setup_sketch :: "state \<Rightarrow> state" where
  "setup_sketch s = setup_apply (setup_load (setup_pins s))"

subsection \<open>The interrupt service routines (lines 255-277)\<close>

text \<open>
  The argument \<open>pinc\<close> is the value of the port C input register when the routine reads
  it. A routine is a step of its own: the model runs it before or after a block of
  \<open>loop\<close>, not in the middle of one.
\<close>

definition ISR_Row0 :: "state \<Rightarrow> byte \<Rightarrow> state" where
  "ISR_Row0 s pinc =
    (if \<not> numPressed s then
       (let s = s\<lparr>colData := pinc AND 0x1F\<rparr>;
            s = s\<lparr>scan_found := True\<rparr>;
            s = s\<lparr>numOdd := True\<rparr>;
            s = (if colData s \<noteq> 0x1F \<and> colData s \<noteq> 0 then s\<lparr>numPressed := True\<rparr> else s)
        in s)
     else s)"

definition ISR_Row3 :: "state \<Rightarrow> byte \<Rightarrow> state" where
  "ISR_Row3 s pinc =
    (if \<not> numPressed s then
       (let s = s\<lparr>colData := pinc AND 0x1F\<rparr>;
            s = s\<lparr>scan_found := True\<rparr>;
            s = s\<lparr>numOdd := False\<rparr>;
            s = (if colData s \<noteq> 0x1F \<and> colData s \<noteq> 0 then s\<lparr>numPressed := True\<rparr> else s)
        in s)
     else s)"

subsection \<open>\<^verbatim>\<open>loop()\<close> (lines 280-366)\<close>

text \<open>
  The body of \<^verbatim>\<open>loop()\<close> is three blocks in sequence: the scan watchdog (lines 282-302),
  the RESTORE key (lines 304-319), the number key set by an interrupt routine (lines
  321-365). Each block is one function; \<open>loop\<close> runs them in the order of the source.
\<close>

definition loop_scan :: "state \<Rightarrow> byte \<Rightarrow> state" where
  "loop_scan s pinc =
    (if \<not> scan_found s then
       (let s = s\<lparr>columns := pinc AND 0x1F\<rparr> in
        if columns s \<noteq> 0x1F then s\<lparr>scan_found := True\<rparr>
        else if scan_counter s > 0 then
          (let s = s\<lparr>scan_counter := scan_counter s - 1\<rparr> in delayMicroseconds 33 s)
        else if scan_active s = 1 then
          (let s = s\<lparr>kernal_num := 1\<rparr>;
               s = EEPROM_write KernalSlot (kernal_num s) s;
               s = s\<lparr>kernal_addr := kernal_num s - 1\<rparr>
           in SwitchKernal s)
        else
          (let s = s\<lparr>scan_counter := Default_Scan_Count\<rparr> in s\<lparr>scan_found := True\<rparr>))
     else s)"

definition loop_restore :: "state \<Rightarrow> level \<Rightarrow> state" where
  "loop_restore s restore_pin =
    (if restore_pin = HIGH then
       (let s = s\<lparr>restore_found := False\<rparr> in s\<lparr>restore_counter := Default_Restore_Count\<rparr>)
     else
       (let s = s\<lparr>restore_found := True\<rparr> in
        if restore_counter s > 0 then s\<lparr>restore_counter := restore_counter s - 1\<rparr>
        else
          (let s = systemRESET s;
               s = s\<lparr>scan_counter := Default_Scan_Count\<rparr>;
               s = s\<lparr>scan_found := False\<rparr>;
               s = delay 2000 s
           in systemUNRESET s)))"

text \<open>
  Lines 323-331, which the source has inline in \<^verbatim>\<open>loop()\<close>: the column snapshot and the
  row flag give the key number. \<open>k\<close> is the value \<^verbatim>\<open>key\<close> holds before (128 when no
  branch assigns it).
\<close>

definition decode_key :: "byte \<Rightarrow> byte \<Rightarrow> bool \<Rightarrow> byte" where
  "decode_key k cd row_odd =
    (let k = (if cd AND 0x10 = 0 then 1
              else if cd AND 0x01 = 0 then 3
              else if cd AND 0x02 = 0 then 5
              else if cd AND 0x04 = 0 then 7
              else if cd AND 0x08 = 0 then 9
              else k);
         k = (if \<not> row_odd then k + 1 else k);
         k = (if k = 10 then 0 else k)
     in k)"

definition loop_key :: "state \<Rightarrow> state" where
  "loop_key s =
    (let s =
       (if numPressed s then
          (let s = s\<lparr>key := decode_key (key s) (colData s) (numOdd s)\<rparr> in
           if restore_found s \<and> key s \<ge> 0 \<and> key s \<le> 9 then
             (if key s = 0 then
                (let s = s\<lparr>scan_active := 0\<rparr>;
                     s = s\<lparr>kernal_num := 1\<rparr>;
                     s = EEPROM_write KernalSlot (kernal_num s) s;
                     s = s\<lparr>kernal_addr := kernal_num s - 1\<rparr>;
                     s = EEPROM_write ScanActiveSlot (scan_active s) s
                 in SwitchKernal s)
              else if key s = 9 then
                (let s = (if np_mode s = 1 then s\<lparr>np_mode := 0\<rparr> else s\<lparr>np_mode := 1\<rparr>);
                     s = EEPROM_write NPModeSlot (np_mode s) s
                 in SwitchVideo s)
              else
                (let s = s\<lparr>scan_active := 1\<rparr>;
                     s = s\<lparr>kernal_num := key s\<rparr>;
                     s = EEPROM_write KernalSlot (kernal_num s) s;
                     s = s\<lparr>kernal_addr := kernal_num s - 1\<rparr>;
                     s = EEPROM_write ScanActiveSlot (scan_active s) s
                 in SwitchKernal s))
           else s)
        else s);
         s = s\<lparr>key := 128\<rparr>;
         s = s\<lparr>numPressed := False\<rparr>;
         s = delayMicroseconds 1000 s
     in s)"

definition loop :: "state \<Rightarrow> byte \<Rightarrow> level \<Rightarrow> state" where
  "loop s pinc restore_pin = loop_key (loop_restore (loop_scan s pinc) restore_pin)"

text \<open>
  The handler attached to a row pin (lines 162-163); no other pin has one.
\<close>

definition row_interrupt :: "pin \<Rightarrow> state \<Rightarrow> byte \<Rightarrow> state" where
  "row_interrupt r s pinc =
    (if r = Row0 then ISR_Row0 s pinc else if r = Row3 then ISR_Row3 s pinc else s)"

text \<open>
  The Arduino core calls \<^verbatim>\<open>loop()\<close> again and again. \<open>run_loop\<close> runs one iteration for
  each pair of readings (port C, RESTORE pin), in order, with no interrupt in between.
\<close>

fun run_loop :: "state \<Rightarrow> (byte \<times> level) list \<Rightarrow> state" where
  "run_loop s [] = s"
| "run_loop s ((pinc, restore_pin) # ins) = run_loop (loop s pinc restore_pin) ins"

text \<open>The controller after \<^verbatim>\<open>setup()\<close> on an erased EEPROM: the state that examples start from.\<close>

definition booted :: state where
  "booted = setup_sketch (power_on erased_eeprom)"

subsection \<open>Observing a run\<close>

text \<open>
  The action sequences the functions above append to \<open>actions\<close>, named so that theorems
  can say which sequence a step has run. \<open>reset_sequence\<close> is the bracket that
  \<^verbatim>\<open>SwitchKernal\<close> and \<^verbatim>\<open>SwitchVideo\<close> put around the actions that apply a selection.
\<close>

definition setup_pin_actions :: "action list" where
  "setup_pin_actions =
    [PinMode Row0 INPUT_PULLUP, PinMode Row3 INPUT_PULLUP, PinMode Col1 INPUT_PULLUP,
     PinMode Col2 INPUT_PULLUP, PinMode Col3 INPUT_PULLUP, PinMode Col4 INPUT_PULLUP,
     PinMode Col7 INPUT_PULLUP, PinMode RESTOREPin INPUT_PULLUP, PinMode KSW_A13 OUTPUT,
     PinMode KSW_A14 OUTPUT, PinMode KSW_A15 OUTPUT, PinMode NeN OUTPUT, PinMode PeN OUTPUT,
     PinMode C64RES OUTPUT, PinMode EXROMRES INPUT]"

definition systemRESET_actions :: "action list" where
  "systemRESET_actions =
    [DigitalWrite C64RES HIGH, PinMode C64RES INPUT, DigitalWrite C64RES HIGH,
     DigitalWrite EXROMRES LOW, PinMode EXROMRES OUTPUT, DigitalWrite EXROMRES LOW]"

definition systemUNRESET_actions :: "action list" where
  "systemUNRESET_actions =
    [Delay 200, DigitalWrite C64RES LOW, PinMode C64RES OUTPUT, DigitalWrite C64RES LOW,
     Delay 300, DigitalWrite EXROMRES HIGH, PinMode EXROMRES INPUT, DigitalWrite EXROMRES HIGH]"

definition bit_level :: "byte \<Rightarrow> nat \<Rightarrow> level" where
  "bit_level addr n = (if bit addr n then HIGH else LOW)"

definition address_actions :: "byte \<Rightarrow> action list" where
  "address_actions addr =
    [DigitalWrite KSW_A13 (bit_level addr 0), DigitalWrite KSW_A14 (bit_level addr 1),
     DigitalWrite KSW_A15 (bit_level addr 2)]"

definition video_actions :: "byte \<Rightarrow> action list" where
  "video_actions m =
    (if m = 0 then [DigitalWrite NeN LOW, DigitalWrite PeN HIGH, Delay 500, DigitalWrite PeN LOW]
     else [DigitalWrite NeN HIGH, DigitalWrite PeN LOW, Delay 500, DigitalWrite NeN LOW])"

definition reset_sequence :: "action list \<Rightarrow> action list" where
  "reset_sequence apply_actions =
     systemRESET_actions @ apply_actions @ [Delay 2000] @ systemUNRESET_actions @ [Delay 2000]"

text \<open>The number on the three address lines, A13 the least significant bit.\<close>

definition level_bit :: "level \<Rightarrow> nat" where
  "level_bit v = (if v = HIGH then 1 else 0)"

definition address_lines :: "state \<Rightarrow> nat" where
  "address_lines s =
     level_bit (pin_level s KSW_A13) + 2 * level_bit (pin_level s KSW_A14)
       + 4 * level_bit (pin_level s KSW_A15)"

text \<open>
  Replaying a sequence of actions on the pins alone: \<open>pin_step\<close> is what one action does
  to the directions and levels (as \<open>pinMode\<close> and \<open>digitalWrite\<close> above), and
  \<open>pins_at_delays\<close> lists the pin configuration at every busy wait of the sequence, that
  is, every configuration that is held for some time. \<open>pins_trace\<close> lists the
  configuration after each action of the sequence, one entry for each action, and
  \<open>pins_after\<close> is the configuration at its end.
\<close>

type_synonym pins = "(pin \<Rightarrow> pmode) \<times> (pin \<Rightarrow> level)"

fun pin_step :: "action \<Rightarrow> pins \<Rightarrow> pins" where
  "pin_step (PinMode p m) (pm, pl) = (pm(p := m), pl)"
| "pin_step (DigitalWrite p v) (pm, pl) = (pm, pl(p := v))"
| "pin_step _ (pm, pl) = (pm, pl)"

fun pins_at_delays :: "action list \<Rightarrow> pins \<Rightarrow> pins list" where
  "pins_at_delays [] c = []"
| "pins_at_delays (Delay ms # as) c = c # pins_at_delays as c"
| "pins_at_delays (a # as) c = pins_at_delays as (pin_step a c)"

fun pins_trace :: "action list \<Rightarrow> pins \<Rightarrow> pins list" where
  "pins_trace [] c = []"
| "pins_trace (a # as) c = pin_step a c # pins_trace as (pin_step a c)"

fun pins_after :: "action list \<Rightarrow> pins \<Rightarrow> pins" where
  "pins_after [] c = c"
| "pins_after (a # as) c = pins_after as (pin_step a c)"

text \<open>Direction and written level of the host reset line and of the EXROM reset line.\<close>

definition reset_lines :: "pins \<Rightarrow> (pmode \<times> level) \<times> (pmode \<times> level)" where
  "reset_lines c = ((fst c C64RES, snd c C64RES), (fst c EXROMRES, snd c EXROMRES))"

fun is_eeprom_write :: "action \<Rightarrow> bool" where
  "is_eeprom_write (EepromWrite a v) = True"
| "is_eeprom_write _ = False"

section \<open>Closed forms of the functions\<close>

lemma systemRESET_eq:
  "systemRESET s =
     s\<lparr>pin_mode := (pin_mode s)(C64RES := INPUT, EXROMRES := OUTPUT),
       pin_level := (pin_level s)(C64RES := HIGH, EXROMRES := LOW),
       actions := actions s @ systemRESET_actions\<rparr>"
  by (simp add: systemRESET_def systemRESET_actions_def digitalWrite_def pinMode_def)

lemma systemUNRESET_eq:
  "systemUNRESET s =
     s\<lparr>pin_mode := (pin_mode s)(C64RES := OUTPUT, EXROMRES := INPUT),
       pin_level := (pin_level s)(C64RES := LOW, EXROMRES := HIGH),
       actions := actions s @ systemUNRESET_actions\<rparr>"
  by (simp add: systemUNRESET_def systemUNRESET_actions_def digitalWrite_def pinMode_def delay_def)

lemma mask_bit8:
  fixes x :: byte
  shows "(x AND 1 = 0) = (\<not> bit x 0)" "(x AND 2 = 0) = (\<not> bit x 1)"
    "(x AND 4 = 0) = (\<not> bit x 2)" "(x AND 8 = 0) = (\<not> bit x 3)"
    "(x AND 16 = 0) = (\<not> bit x 4)"
  using and_exp_eq_0_iff_not_bit [of x 0] and_exp_eq_0_iff_not_bit [of x 1]
    and_exp_eq_0_iff_not_bit [of x 2] and_exp_eq_0_iff_not_bit [of x 3]
    and_exp_eq_0_iff_not_bit [of x 4]
  by simp_all

lemma SetAddressBits_eq:
  "SetAddressBits addr s =
     s\<lparr>pin_level := (pin_level s)(KSW_A13 := bit_level addr 0, KSW_A14 := bit_level addr 1,
                                  KSW_A15 := bit_level addr 2),
       actions := actions s @ address_actions addr\<rparr>"
  by (simp add: SetAddressBits_def address_actions_def bit_level_def digitalWrite_def mask_bit8)

lemma SetVideoBits_eq:
  "SetVideoBits m s =
     s\<lparr>pin_level := (pin_level s)(NeN := LOW, PeN := LOW),
       actions := actions s @ video_actions m\<rparr>"
proof -
  have "(pin_level s)(NeN := HIGH, PeN := LOW, NeN := LOW) = (pin_level s)(NeN := LOW, PeN := LOW)"
    by (rule ext) simp
  then show ?thesis
    by (simp add: SetVideoBits_def video_actions_def digitalWrite_def delay_def)
qed

lemma pl_kernal:
  "(pl :: pin \<Rightarrow> level)(C64RES := HIGH, EXROMRES := LOW, KSW_A13 := a, KSW_A14 := b,
       KSW_A15 := c, C64RES := LOW, EXROMRES := HIGH)
     = pl(KSW_A13 := a, KSW_A14 := b, KSW_A15 := c, C64RES := LOW, EXROMRES := HIGH)"
  by (rule ext) simp

lemma pl_video:
  "(pl :: pin \<Rightarrow> level)(C64RES := HIGH, EXROMRES := LOW, NeN := LOW, PeN := LOW,
       C64RES := LOW, EXROMRES := HIGH)
     = pl(NeN := LOW, PeN := LOW, C64RES := LOW, EXROMRES := HIGH)"
  by (rule ext) simp

lemma SwitchKernal_eq:
  "SwitchKernal s =
     s\<lparr>scan_counter := Default_Scan_Count, scan_found := (scan_active s \<noteq> 1),
       pin_mode := (pin_mode s)(C64RES := OUTPUT, EXROMRES := INPUT),
       pin_level := (pin_level s)(KSW_A13 := bit_level (kernal_addr s) 0,
          KSW_A14 := bit_level (kernal_addr s) 1, KSW_A15 := bit_level (kernal_addr s) 2,
          C64RES := LOW, EXROMRES := HIGH),
       actions := actions s @ reset_sequence (address_actions (kernal_addr s))\<rparr>"
  unfolding SwitchKernal_def Let_def systemRESET_eq systemUNRESET_eq SetAddressBits_eq
    delay_def reset_sequence_def
  by (cases "scan_active s = 1") (simp_all add: pl_kernal)

lemma SwitchVideo_eq:
  "SwitchVideo s =
     s\<lparr>scan_counter := Default_Scan_Count, scan_found := (scan_active s \<noteq> 1),
       pin_mode := (pin_mode s)(C64RES := OUTPUT, EXROMRES := INPUT),
       pin_level := (pin_level s)(NeN := LOW, PeN := LOW, C64RES := LOW, EXROMRES := HIGH),
       actions := actions s @ reset_sequence (video_actions (np_mode s))\<rparr>"
  unfolding SwitchVideo_def Let_def systemRESET_eq systemUNRESET_eq SetVideoBits_eq
    delay_def reset_sequence_def
  by (cases "scan_active s = 1") (simp_all add: pl_video)

text \<open>The blocks of \<open>setup_sketch\<close>.\<close>

lemma setup_pins_eq:
  "setup_pins s = s\<lparr>pin_mode := (pin_mode s)(Row0 := INPUT_PULLUP, Row3 := INPUT_PULLUP,
       Col1 := INPUT_PULLUP, Col2 := INPUT_PULLUP, Col3 := INPUT_PULLUP, Col4 := INPUT_PULLUP,
       Col7 := INPUT_PULLUP, RESTOREPin := INPUT_PULLUP, KSW_A13 := OUTPUT, KSW_A14 := OUTPUT,
       KSW_A15 := OUTPUT, NeN := OUTPUT, PeN := OUTPUT, C64RES := OUTPUT, EXROMRES := INPUT),
     actions := actions s @ setup_pin_actions\<rparr>"
  by (simp add: setup_pins_def pinMode_def setup_pin_actions_def)

lemma filter_writes:
  "filter is_eeprom_write systemRESET_actions = []"
  "filter is_eeprom_write systemUNRESET_actions = []"
  "filter is_eeprom_write (address_actions a) = []"
  "filter is_eeprom_write (video_actions m) = []"
  "filter is_eeprom_write setup_pin_actions = []"
  by (simp_all add: systemRESET_actions_def systemUNRESET_actions_def address_actions_def
      video_actions_def setup_pin_actions_def)

lemma setup_load_eq:
  fixes s :: state
  defines "e \<equiv> eeprom s"
  defines "k \<equiv> (if e KernalSlot < 1 \<or> e KernalSlot > KMax then 1 else e KernalSlot)"
  defines "a \<equiv> (if e ScanActiveSlot \<noteq> 0 \<and> e ScanActiveSlot \<noteq> 1 then 1 else e ScanActiveSlot)"
  defines "v \<equiv> (if e NPModeSlot \<noteq> 0 \<and> e NPModeSlot \<noteq> 1 then 1 else e NPModeSlot)"
  shows "setup_load s =
    s\<lparr>kernal_num := k, kernal_addr := k - 1, scan_active := a, np_mode := v,
      eeprom := e(KernalSlot := k, ScanActiveSlot := a, NPModeSlot := v),
      actions := actions s
         @ (if e KernalSlot < 1 \<or> e KernalSlot > KMax then [EepromWrite KernalSlot 1] else [])
         @ (if e ScanActiveSlot \<noteq> 0 \<and> e ScanActiveSlot \<noteq> 1 then [EepromWrite ScanActiveSlot 1] else [])
         @ (if e NPModeSlot \<noteq> 0 \<and> e NPModeSlot \<noteq> 1 then [EepromWrite NPModeSlot 1] else [])\<rparr>"
  unfolding k_def a_def v_def e_def
  by (cases "eeprom s 0 = 0 \<or> 8 < eeprom s 0"; cases "eeprom s 1 = 0"; cases "eeprom s 1 = 1";
      cases "eeprom s 2 = 0"; cases "eeprom s 2 = 1";
      simp add: setup_load_def Let_def EEPROM_read_def EEPROM_write_def fun_upd_idem)

lemma setup_apply_frame:
  "kernal_num (setup_apply s) = kernal_num s" "scan_active (setup_apply s) = scan_active s"
  "np_mode (setup_apply s) = np_mode s" "eeprom (setup_apply s) = eeprom s"
  "numPressed (setup_apply s) = numPressed s" "key (setup_apply s) = key s"
  "restore_counter (setup_apply s) = restore_counter s"
  "scan_counter (setup_apply s) = Default_Scan_Count"
  "scan_found (setup_apply s) = (scan_active s = 0)"
  "filter is_eeprom_write (actions (setup_apply s)) = filter is_eeprom_write (actions s)"
  by (simp_all add: setup_apply_def Let_def systemRESET_eq systemUNRESET_eq SetAddressBits_eq
      SetVideoBits_eq attachInterrupt_def filter_writes)

text \<open>What the first two blocks of \<open>loop\<close> leave alone.\<close>

lemma loop_scan_frame:
  "numPressed (loop_scan s p) = numPressed s" "colData (loop_scan s p) = colData s"
  "numOdd (loop_scan s p) = numOdd s" "key (loop_scan s p) = key s"
  "np_mode (loop_scan s p) = np_mode s" "restore_counter (loop_scan s p) = restore_counter s"
  "restore_found (loop_scan s p) = restore_found s" "scan_active (loop_scan s p) = scan_active s"
  by (simp_all add: loop_scan_def Let_def SwitchKernal_eq EEPROM_write_def delayMicroseconds_def)

lemma loop_restore_frame:
  "numPressed (loop_restore s rp) = numPressed s" "colData (loop_restore s rp) = colData s"
  "numOdd (loop_restore s rp) = numOdd s" "key (loop_restore s rp) = key s"
  "np_mode (loop_restore s rp) = np_mode s" "kernal_num (loop_restore s rp) = kernal_num s"
  "kernal_addr (loop_restore s rp) = kernal_addr s" "scan_active (loop_restore s rp) = scan_active s"
  "eeprom (loop_restore s rp) = eeprom s" "restore_found (loop_restore s rp) = (rp \<noteq> HIGH)"
  by (simp_all add: loop_restore_def Let_def systemRESET_eq systemUNRESET_eq delay_def)

text \<open>One closed form for each path through the three blocks of \<open>loop\<close>.\<close>

lemma loop_scan_found: "scan_found s \<Longrightarrow> loop_scan s p = s"
  by (simp add: loop_scan_def)

lemma loop_scan_activity:
  "\<not> scan_found s \<Longrightarrow> p AND 0x1F \<noteq> 0x1F \<Longrightarrow>
   loop_scan s p = s\<lparr>columns := p AND 0x1F, scan_found := True\<rparr>"
  by (simp add: loop_scan_def Let_def)

lemma loop_scan_countdown:
  "\<not> scan_found s \<Longrightarrow> p AND 0x1F = 0x1F \<Longrightarrow> scan_counter s > 0 \<Longrightarrow>
   loop_scan s p = s\<lparr>columns := 0x1F, scan_counter := scan_counter s - 1,
     actions := actions s @ [DelayMicroseconds 33]\<rparr>"
  by (simp add: loop_scan_def Let_def delayMicroseconds_def)

lemma loop_scan_timeout:
  "\<not> scan_found s \<Longrightarrow> p AND 0x1F = 0x1F \<Longrightarrow> \<not> scan_counter s > 0 \<Longrightarrow> scan_active s = 1 \<Longrightarrow>
   loop_scan s p = s\<lparr>columns := 0x1F, kernal_num := 1, kernal_addr := 0,
     eeprom := (eeprom s)(KernalSlot := 1),
     scan_counter := Default_Scan_Count, scan_found := False,
     pin_mode := (pin_mode s)(C64RES := OUTPUT, EXROMRES := INPUT),
     pin_level := (pin_level s)(KSW_A13 := bit_level 0 0, KSW_A14 := bit_level 0 1,
        KSW_A15 := bit_level 0 2, C64RES := LOW, EXROMRES := HIGH),
     actions := actions s @ [EepromWrite KernalSlot 1] @ reset_sequence (address_actions 0)\<rparr>"
  by (simp add: loop_scan_def Let_def SwitchKernal_eq EEPROM_write_def)

lemma loop_scan_inert:
  "\<not> scan_found s \<Longrightarrow> p AND 0x1F = 0x1F \<Longrightarrow> \<not> scan_counter s > 0 \<Longrightarrow> scan_active s \<noteq> 1 \<Longrightarrow>
   loop_scan s p = s\<lparr>columns := 0x1F, scan_counter := Default_Scan_Count, scan_found := True\<rparr>"
  by (simp add: loop_scan_def Let_def)

lemma loop_restore_released:
  "loop_restore s HIGH = s\<lparr>restore_found := False, restore_counter := Default_Restore_Count\<rparr>"
  by (simp add: loop_restore_def)

lemma loop_restore_held:
  "rp \<noteq> HIGH \<Longrightarrow> restore_counter s > 0 \<Longrightarrow>
   loop_restore s rp = s\<lparr>restore_found := True, restore_counter := restore_counter s - 1\<rparr>"
  by (simp add: loop_restore_def)

lemma loop_restore_expired:
  "rp \<noteq> HIGH \<Longrightarrow> \<not> restore_counter s > 0 \<Longrightarrow>
   loop_restore s rp = s\<lparr>restore_found := True, scan_counter := Default_Scan_Count,
     scan_found := False,
     pin_mode := (pin_mode s)(C64RES := OUTPUT, EXROMRES := INPUT),
     pin_level := (pin_level s)(C64RES := LOW, EXROMRES := HIGH),
     actions := actions s @ systemRESET_actions @ [Delay 2000] @ systemUNRESET_actions\<rparr>"
  by (simp add: loop_restore_def Let_def systemRESET_eq systemUNRESET_eq delay_def)

lemma loop_key_idle:
  "\<not> numPressed s \<or> \<not> restore_found s \<or> \<not> decode_key (key s) (colData s) (numOdd s) \<le> 9 \<Longrightarrow>
   loop_key s = s\<lparr>key := 128, numPressed := False,
     actions := actions s @ [DelayMicroseconds 1000]\<rparr>"
  by (auto simp: loop_key_def Let_def delayMicroseconds_def)

lemma loop_key_bank:
  assumes "numPressed t" "restore_found t" "decode_key (key t) (colData t) (numOdd t) = d"
    "d \<noteq> 0" "d \<noteq> 9" "d \<le> 9"
  shows "loop_key t =
    t\<lparr>key := 128, numPressed := False, scan_active := 1, kernal_num := d, kernal_addr := d - 1,
      eeprom := (eeprom t)(KernalSlot := d, ScanActiveSlot := 1),
      scan_counter := Default_Scan_Count, scan_found := False,
      pin_mode := (pin_mode t)(C64RES := OUTPUT, EXROMRES := INPUT),
      pin_level := (pin_level t)(KSW_A13 := bit_level (d - 1) 0, KSW_A14 := bit_level (d - 1) 1,
         KSW_A15 := bit_level (d - 1) 2, C64RES := LOW, EXROMRES := HIGH),
      actions := actions t @ [EepromWrite KernalSlot d, EepromWrite ScanActiveSlot 1]
         @ reset_sequence (address_actions (d - 1)) @ [DelayMicroseconds 1000]\<rparr>"
  using assms
  by (simp add: loop_key_def Let_def SwitchKernal_eq EEPROM_write_def delayMicroseconds_def)

lemma loop_key_zero:
  assumes "numPressed t" "restore_found t" "decode_key (key t) (colData t) (numOdd t) = 0"
  shows "loop_key t =
    t\<lparr>key := 128, numPressed := False, scan_active := 0, kernal_num := 1, kernal_addr := 0,
      eeprom := (eeprom t)(KernalSlot := 1, ScanActiveSlot := 0),
      scan_counter := Default_Scan_Count, scan_found := True,
      pin_mode := (pin_mode t)(C64RES := OUTPUT, EXROMRES := INPUT),
      pin_level := (pin_level t)(KSW_A13 := bit_level 0 0, KSW_A14 := bit_level 0 1,
         KSW_A15 := bit_level 0 2, C64RES := LOW, EXROMRES := HIGH),
      actions := actions t @ [EepromWrite KernalSlot 1, EepromWrite ScanActiveSlot 0]
         @ reset_sequence (address_actions 0) @ [DelayMicroseconds 1000]\<rparr>"
  using assms
  by (simp add: loop_key_def Let_def SwitchKernal_eq EEPROM_write_def delayMicroseconds_def)

lemma loop_key_nine:
  assumes "numPressed t" "restore_found t" "decode_key (key t) (colData t) (numOdd t) = 9"
  shows "loop_key t =
    t\<lparr>key := 128, numPressed := False, np_mode := (if np_mode t = 1 then 0 else 1),
      eeprom := (eeprom t)(NPModeSlot := (if np_mode t = 1 then 0 else 1)),
      scan_counter := Default_Scan_Count, scan_found := (scan_active t \<noteq> 1),
      pin_mode := (pin_mode t)(C64RES := OUTPUT, EXROMRES := INPUT),
      pin_level := (pin_level t)(NeN := LOW, PeN := LOW, C64RES := LOW, EXROMRES := HIGH),
      actions := actions t @ [EepromWrite NPModeSlot (if np_mode t = 1 then 0 else 1)]
         @ reset_sequence (video_actions (if np_mode t = 1 then 0 else 1))
         @ [DelayMicroseconds 1000]\<rparr>"
  using assms
  by (cases "np_mode t = 1")
     (simp_all add: loop_key_def Let_def SwitchVideo_eq EEPROM_write_def delayMicroseconds_def)

section \<open>The key decoder\<close>

text \<open>A five-bit snapshot whose five bits are all set is the all-high snapshot.\<close>

lemma all_high:
  fixes cd :: byte
  assumes "cd = pinc AND 0x1F" "bit cd 0" "bit cd 1" "bit cd 2" "bit cd 3" "bit cd 4"
  shows "cd = 0x1F"
proof (rule bit_eqI)
  fix n :: nat
  have m: "(0x1F :: byte) = mask 5" by (simp add: mask_eq_exp_minus_1)
  have "n < 5 \<Longrightarrow> n = 0 \<or> n = 1 \<or> n = 2 \<or> n = 3 \<or> n = 4" by arith
  then have "n < 5 \<Longrightarrow> bit cd n" using assms(2-) by auto
  moreover have "bit cd n \<Longrightarrow> n < 5" using assms(1) by (simp add: m bit_and_iff bit_mask_iff)
  ultimately show "bit cd n = bit (0x1F :: byte) n"
    by (auto simp: m bit_mask_iff dest: bit_imp_le_length)
qed

text \<open>
  C6. A snapshot \<open>cd\<close> that an interrupt routine took from port C (\<open>pinc AND 0x1F\<close>) and
  that passed the pending filter (not \<open>0x1F\<close>, not \<open>0\<close>) always decodes to a key in
  0..9, whatever \<open>key\<close> held before. The columns are active low: the first clear bit in
  the order bit 4 (column 7), bit 0 (column 1), bit 1 (column 2), bit 2 (column 3),
  bit 3 (column 4) gives the odd digit 1, 3, 5, 7, 9; the even row adds one, and 10
  becomes 0. A snapshot with several clear bits decodes by the same order.
\<close>

theorem decode_key_total:
  assumes "cd = pinc AND 0x1F" "cd \<noteq> 0x1F" "cd \<noteq> 0"
  shows "decode_key k cd row_odd \<le> 9 \<and>
         unat (decode_key k cd row_odd) =
           (let d = (if \<not> bit cd 4 then 1 else if \<not> bit cd 0 then 3
                     else if \<not> bit cd 1 then 5 else if \<not> bit cd 2 then 7 else 9)
            in if row_odd then d else (d + 1) mod 10)"
  using all_high [OF assms(1)] assms(2)
  by (auto simp: decode_key_def Let_def mask_bit8)

text \<open>
  The snapshot \<open>0x05\<close> has three clear bits (columns 7, 2 and 4); with the even row it
  decodes to 2, the even neighbour of the first match, column 7.
\<close>

theorem decode_key_total_witness:
  "(0x05 :: byte) = 0xE5 AND 0x1F \<and> (0x05 :: byte) \<noteq> 0x1F \<and> (0x05 :: byte) \<noteq> 0 \<and>
   decode_key 128 0x05 False \<le> 9 \<and> unat (decode_key 128 0x05 False) = 2"
  using decode_key_total [of "0x05" "0xE5" 128 False]
  by simp

section \<open>Facts shared by the claims\<close>

lemma booted_fields:
  "numPressed booted = False" "key booted = 128" "scan_active booted = 1"
  "scan_found booted = False" "scan_counter booted = Default_Scan_Count"
  "restore_counter booted = 0" "kernal_num booted = 1" "np_mode booted = 1"
  by (simp_all add: booted_def setup_sketch_def setup_apply_frame setup_load_eq setup_pins_eq
      power_on_def erased_eeprom_def)

lemma row_interrupt_pending: "numPressed s \<Longrightarrow> row_interrupt r s p = s"
  by (simp add: row_interrupt_def ISR_Row0_def ISR_Row3_def)

lemma row_interrupt_capture:
  assumes "\<not> numPressed s" "r = Row0 \<or> r = Row3"
  shows "row_interrupt r s p =
    s\<lparr>colData := p AND 0x1F, scan_found := True, numOdd := (r = Row0),
      numPressed := (p AND 0x1F \<noteq> 0x1F \<and> p AND 0x1F \<noteq> 0)\<rparr>"
  using assms by (auto simp: row_interrupt_def ISR_Row0_def ISR_Row3_def Let_def)

lemma byte_1_8:
  fixes d :: byte
  assumes "1 \<le> d" "d \<le> 8"
  shows "d = 1 \<or> d = 2 \<or> d = 3 \<or> d = 4 \<or> d = 5 \<or> d = 6 \<or> d = 7 \<or> d = 8"
proof -
  have "1 \<le> unat d" "unat d \<le> 8" using assms by (simp_all add: word_le_nat_alt)
  then have "unat d = 1 \<or> unat d = 2 \<or> unat d = 3 \<or> unat d = 4 \<or> unat d = 5 \<or> unat d = 6
      \<or> unat d = 7 \<or> unat d = 8" by arith
  then show ?thesis by (simp add: word_unat_eq_iff)
qed

lemma address_lines_bank:
  fixes d :: byte
  assumes "1 \<le> d" "d \<le> 8"
  shows "level_bit (bit_level (d - 1) 0) + 2 * level_bit (bit_level (d - 1) 1)
     + 4 * level_bit (bit_level (d - 1) 2) = unat d - 1"
  using byte_1_8 [OF assms] by (auto simp: level_bit_def bit_level_def)

lemma address_lines_zero:
  "level_bit (bit_level 0 0) + 2 * level_bit (bit_level 0 1) + 4 * level_bit (bit_level 0 2) = 0"
  by (simp add: level_bit_def bit_level_def)

text \<open>An iteration that reads the RESTORE pin high, in terms of its watchdog block.\<close>

lemma loop_released:
  "loop t pinc HIGH = (loop_scan t pinc)\<lparr>restore_found := False,
       restore_counter := Default_Restore_Count, key := 128, numPressed := False,
       actions := actions (loop_scan t pinc) @ [DelayMicroseconds 1000]\<rparr>"
  by (simp add: loop_def loop_restore_released loop_key_idle)

text \<open>
  While nothing pulls a column low and RESTORE is not held, each iteration takes one
  tick off the countdown and changes nothing else of the selection: after as many
  iterations as the countdown held, it is at zero and the watchdog is still watching.
\<close>

lemma watchdog_countdown:
  assumes "\<not> scan_found s" "0 \<le> scan_counter s" "length ins = nat (scan_counter s)"
    "\<forall>x\<in>set ins. fst x AND 0x1F = 0x1F \<and> snd x = HIGH"
  shows "scan_counter (run_loop s ins) = 0 \<and> \<not> scan_found (run_loop s ins) \<and>
    scan_active (run_loop s ins) = scan_active s \<and> kernal_num (run_loop s ins) = kernal_num s \<and>
    eeprom (run_loop s ins) = eeprom s"
  using assms
proof (induction ins arbitrary: s)
  case Nil
  then show ?case by simp
next
  case (Cons x ins)
  obtain p r where x: "x = (p, r)" by (cases x)
  have r: "r = HIGH" and p: "p AND 0x1F = 0x1F" using Cons.prems(4) x by simp_all
  have c: "scan_counter s > 0" using Cons.prems(2,3) by simp
  define t where "t = loop s p HIGH"
  have t: "t = s\<lparr>columns := 0x1F, scan_counter := scan_counter s - 1,
       restore_found := False, restore_counter := Default_Restore_Count, key := 128,
       numPressed := False,
       actions := actions s @ [DelayMicroseconds 33, DelayMicroseconds 1000]\<rparr>"
    unfolding t_def loop_released loop_scan_countdown [OF Cons.prems(1) p c] by simp
  have "scan_counter (run_loop t ins) = 0 \<and> \<not> scan_found (run_loop t ins) \<and>
    scan_active (run_loop t ins) = scan_active t \<and> kernal_num (run_loop t ins) = kernal_num t \<and>
    eeprom (run_loop t ins) = eeprom t"
  proof (rule Cons.IH)
    show "\<not> scan_found t" using Cons.prems(1) by (simp add: t)
    show "0 \<le> scan_counter t" using c by (simp add: t)
    show "length ins = nat (scan_counter t)" using Cons.prems(3) c by (simp add: t)
    show "\<forall>x\<in>set ins. fst x AND 0x1F = 0x1F \<and> snd x = HIGH" using Cons.prems(4) by simp
  qed
  then show ?case by (simp add: x r t_def [symmetric]) (simp add: t)
qed

section \<open>The chord gestures\<close>

text \<open>
  C1. A loop iteration that finds an event pending whose snapshot decodes to a digit
  \<open>d\<close> in 1..8, and reads the RESTORE pin low (the modifier is held), ends with
  \<open>kernal_num = d\<close> and \<open>scan_active = 1\<close>, with \<open>d\<close> at EEPROM offset 0 and \<open>1\<close> at
  offset 1, and with the number \<open>d - 1\<close> on the three address lines. The last thing the
  iteration did before its closing one-millisecond wait is the two EEPROM writes followed
  by the reset sequence around the address bits of \<open>d - 1\<close>.
\<close>

theorem chord_digit_selects_bank:
  assumes "numPressed s" "decode_key (key s) (colData s) (numOdd s) = d" "1 \<le> d" "d \<le> 8"
  shows "let s' = loop s pinc LOW in
     kernal_num s' = d \<and> scan_active s' = 1 \<and>
     eeprom s' KernalSlot = d \<and> eeprom s' ScanActiveSlot = 1 \<and>
     address_lines s' = unat d - 1 \<and>
     actions s' = actions (loop_restore (loop_scan s pinc) LOW)
        @ [EepromWrite KernalSlot d, EepromWrite ScanActiveSlot 1]
        @ reset_sequence (address_actions (d - 1)) @ [DelayMicroseconds 1000]"
proof -
  define t where "t = loop_restore (loop_scan s pinc) LOW"
  have d: "d \<noteq> 0" "d \<noteq> 9" "d \<le> 9" using byte_1_8 [OF assms(3,4)] by auto
  have "numPressed t" "restore_found t" "decode_key (key t) (colData t) (numOdd t) = d"
    using assms(1,2) by (simp_all add: t_def loop_restore_frame loop_scan_frame)
  from loop_key_bank [OF this d] show ?thesis
    using address_lines_bank [OF assms(3,4)]
    by (simp add: loop_def t_def [symmetric] address_lines_def)
qed

text \<open>
  RESTORE held, key 5: the row 0 interrupt sees column 2 low (\<open>0x1D\<close>) after boot. The
  next iteration selects bank 5 and puts 4 on the address lines.
\<close>

theorem chord_digit_selects_bank_witness:
  "numPressed (ISR_Row0 booted 0x1D) \<and>
   decode_key (key (ISR_Row0 booted 0x1D)) (colData (ISR_Row0 booted 0x1D))
     (numOdd (ISR_Row0 booted 0x1D)) = 5 \<and>
   kernal_num (loop (ISR_Row0 booted 0x1D) 0x1F LOW) = 5 \<and>
   scan_active (loop (ISR_Row0 booted 0x1D) 0x1F LOW) = 1 \<and>
   eeprom (loop (ISR_Row0 booted 0x1D) 0x1F LOW) KernalSlot = 5 \<and>
   eeprom (loop (ISR_Row0 booted 0x1D) 0x1F LOW) ScanActiveSlot = 1 \<and>
   address_lines (loop (ISR_Row0 booted 0x1D) 0x1F LOW) = 4"
proof -
  have h: "numPressed (ISR_Row0 booted 0x1D)"
    "decode_key (key (ISR_Row0 booted 0x1D)) (colData (ISR_Row0 booted 0x1D))
       (numOdd (ISR_Row0 booted 0x1D)) = 5"
    by (simp_all add: ISR_Row0_def Let_def booted_fields decode_key_def)
  have b: "(1 :: byte) \<le> 5" "(5 :: byte) \<le> 8" by simp_all
  show ?thesis
    using chord_digit_selects_bank [OF h b, of "0x1F"] h by (simp add: Let_def)
qed

section \<open>The scan watchdog\<close>

text \<open>
  C2. In a state with scanning active (\<open>scan_active = 1\<close>) where the watchdog is still
  watching (\<open>scan_found\<close> false), the countdown has run down and port C shows no column
  low, the watchdog block of the iteration sets \<open>kernal_num\<close> to 1, leaves \<open>scan_active\<close>
  as it is, writes 1 to EEPROM offset 0, runs the reset sequence around the address
  bits of bank 1 (0 on the address lines) and leaves the watchdog watching with the
  countdown at its default.
\<close>

theorem watchdog_timeout_recovery:
  assumes "scan_active s = 1" "\<not> scan_found s" "scan_counter s \<le> 0" "pinc AND 0x1F = 0x1F"
  shows "let s' = loop_scan s pinc in
     kernal_num s' = 1 \<and> scan_active s' = scan_active s \<and> eeprom s' KernalSlot = 1 \<and>
     address_lines s' = 0 \<and>
     actions s' = actions s @ [EepromWrite KernalSlot 1] @ reset_sequence (address_actions 0) \<and>
     \<not> scan_found s' \<and> scan_counter s' = Default_Scan_Count"
proof -
  have "\<not> scan_counter s > 0" using assms(3) by simp
  from loop_scan_timeout [OF assms(2) assms(4) this assms(1)] show ?thesis
    using address_lines_zero by (simp add: address_lines_def)
qed

text \<open>
  From boot on an erased EEPROM, 10000 iterations with port C all high and RESTORE not
  held run the countdown down; the watchdog block of the next iteration recovers.
\<close>

theorem watchdog_timeout_recovery_witness:
  "scan_active (run_loop booted (replicate 10000 (0x1F, HIGH))) = 1 \<and>
   \<not> scan_found (run_loop booted (replicate 10000 (0x1F, HIGH))) \<and>
   scan_counter (run_loop booted (replicate 10000 (0x1F, HIGH))) \<le> 0 \<and>
   (0x1F :: byte) AND 0x1F = 0x1F \<and>
   kernal_num (loop_scan (run_loop booted (replicate 10000 (0x1F, HIGH))) 0x1F) = 1 \<and>
   eeprom (loop_scan (run_loop booted (replicate 10000 (0x1F, HIGH))) 0x1F) KernalSlot = 1 \<and>
   address_lines (loop_scan (run_loop booted (replicate 10000 (0x1F, HIGH))) 0x1F) = 0 \<and>
   \<not> scan_found (loop_scan (run_loop booted (replicate 10000 (0x1F, HIGH))) 0x1F) \<and>
   scan_counter (loop_scan (run_loop booted (replicate 10000 (0x1F, HIGH))) 0x1F)
     = Default_Scan_Count"
proof -
  define w where "w = run_loop booted (replicate 10000 (0x1F, HIGH))"
  have "scan_counter w = 0 \<and> \<not> scan_found w \<and> scan_active w = scan_active booted \<and>
      kernal_num w = kernal_num booted \<and> eeprom w = eeprom booted"
    unfolding w_def by (rule watchdog_countdown) (simp_all add: booted_fields)
  then have h: "scan_active w = 1" "\<not> scan_found w" "scan_counter w \<le> 0"
    "(0x1F :: byte) AND 0x1F = 0x1F"
    by (simp_all add: booted_fields)
  show ?thesis
    using watchdog_timeout_recovery [OF h] h unfolding w_def [symmetric] by (simp add: Let_def)
qed

text \<open>
  C3. An iteration that finds an event pending whose snapshot decodes to 0, with the
  RESTORE pin low, ends with \<open>kernal_num = 1\<close> and \<open>scan_active = 0\<close>, both written to
  the EEPROM (offsets 0 and 1), the reset sequence run for bank 1, and the watchdog
  satisfied. And in any state \<open>t\<close> with \<open>scan_active = 0\<close>, whatever port C shows, the
  watchdog block changes neither \<open>kernal_num\<close>, \<open>kernal_addr\<close>, \<open>scan_active\<close>, the
  EEPROM nor the pins, and does nothing to the outside but, at most, its 33 microsecond
  wait; when its countdown has run down it only marks the watchdog satisfied and
  restores the countdown.
\<close>

theorem digit_zero_disables_watchdog:
  assumes "numPressed s" "decode_key (key s) (colData s) (numOdd s) = 0"
  shows "(let s' = loop s pinc LOW in
       kernal_num s' = 1 \<and> scan_active s' = 0 \<and>
       eeprom s' KernalSlot = 1 \<and> eeprom s' ScanActiveSlot = 0 \<and> scan_found s' \<and>
       actions s' = actions (loop_restore (loop_scan s pinc) LOW)
          @ [EepromWrite KernalSlot 1, EepromWrite ScanActiveSlot 0]
          @ reset_sequence (address_actions 0) @ [DelayMicroseconds 1000])
     \<and> (scan_active t = 0 \<longrightarrow>
        (let t' = loop_scan t p in
           kernal_num t' = kernal_num t \<and> kernal_addr t' = kernal_addr t \<and>
           scan_active t' = 0 \<and> eeprom t' = eeprom t \<and>
           pin_level t' = pin_level t \<and> pin_mode t' = pin_mode t \<and>
           (actions t' = actions t \<or> actions t' = actions t @ [DelayMicroseconds 33]) \<and>
           (\<not> scan_found t \<and> p AND 0x1F = 0x1F \<and> scan_counter t \<le> 0 \<longrightarrow>
              scan_found t' \<and> scan_counter t' = Default_Scan_Count \<and> actions t' = actions t)))"
proof -
  define u where "u = loop_restore (loop_scan s pinc) LOW"
  have "numPressed u" "restore_found u" "decode_key (key u) (colData u) (numOdd u) = 0"
    using assms by (simp_all add: u_def loop_restore_frame loop_scan_frame)
  note k = loop_key_zero [OF this]
  have a: "let s' = loop s pinc LOW in
       kernal_num s' = 1 \<and> scan_active s' = 0 \<and>
       eeprom s' KernalSlot = 1 \<and> eeprom s' ScanActiveSlot = 0 \<and> scan_found s' \<and>
       actions s' = actions (loop_restore (loop_scan s pinc) LOW)
          @ [EepromWrite KernalSlot 1, EepromWrite ScanActiveSlot 0]
          @ reset_sequence (address_actions 0) @ [DelayMicroseconds 1000]"
    using k by (simp add: loop_def u_def [symmetric])
  have b: "let t' = loop_scan t p in
           kernal_num t' = kernal_num t \<and> kernal_addr t' = kernal_addr t \<and>
           scan_active t' = 0 \<and> eeprom t' = eeprom t \<and>
           pin_level t' = pin_level t \<and> pin_mode t' = pin_mode t \<and>
           (actions t' = actions t \<or> actions t' = actions t @ [DelayMicroseconds 33]) \<and>
           (\<not> scan_found t \<and> p AND 0x1F = 0x1F \<and> scan_counter t \<le> 0 \<longrightarrow>
              scan_found t' \<and> scan_counter t' = Default_Scan_Count \<and> actions t' = actions t)"
    if t: "scan_active t = 0"
  proof -
    have n1: "scan_active t \<noteq> 1" using t by simp
    consider (found) "scan_found t" | (act) "\<not> scan_found t" "p AND 0x1F \<noteq> 0x1F"
      | (count) "\<not> scan_found t" "p AND 0x1F = 0x1F" "scan_counter t > 0"
      | (zero) "\<not> scan_found t" "p AND 0x1F = 0x1F" "\<not> scan_counter t > 0"
      by blast
    then show ?thesis
    proof cases
      case found
      then show ?thesis using t by (simp add: loop_scan_found)
    next
      case act
      then show ?thesis using t by (simp add: loop_scan_activity)
    next
      case count
      then show ?thesis using t by (simp add: loop_scan_countdown)
    next
      case zero
      from loop_scan_inert [OF zero n1] show ?thesis using t by simp
    qed
  qed
  from a b show ?thesis by blast
qed

text \<open>
  RESTORE held, key 0: the row 3 interrupt sees column 4 low (\<open>0x17\<close>) after boot. The
  state \<open>t\<close> is the one the iteration ends in, with the watchdog set watching again and
  its countdown run down, as after a long press of RESTORE.
\<close>

theorem digit_zero_disables_watchdog_witness:
  "numPressed (ISR_Row3 booted 0x17) \<and>
   decode_key (key (ISR_Row3 booted 0x17)) (colData (ISR_Row3 booted 0x17))
     (numOdd (ISR_Row3 booted 0x17)) = 0 \<and>
   kernal_num (loop (ISR_Row3 booted 0x17) 0x1F LOW) = 1 \<and>
   scan_active (loop (ISR_Row3 booted 0x17) 0x1F LOW) = 0 \<and>
   eeprom (loop (ISR_Row3 booted 0x17) 0x1F LOW) ScanActiveSlot = 0 \<and>
   scan_active ((loop (ISR_Row3 booted 0x17) 0x1F LOW)\<lparr>scan_found := False, scan_counter := 0\<rparr>) = 0 \<and>
   scan_found (loop_scan
     ((loop (ISR_Row3 booted 0x17) 0x1F LOW)\<lparr>scan_found := False, scan_counter := 0\<rparr>) 0x1F) \<and>
   kernal_num (loop_scan
     ((loop (ISR_Row3 booted 0x17) 0x1F LOW)\<lparr>scan_found := False, scan_counter := 0\<rparr>) 0x1F) = 1 \<and>
   actions (loop_scan
     ((loop (ISR_Row3 booted 0x17) 0x1F LOW)\<lparr>scan_found := False, scan_counter := 0\<rparr>) 0x1F)
     = actions (loop (ISR_Row3 booted 0x17) 0x1F LOW)"
proof -
  define w where "w = ISR_Row3 booted 0x17"
  define t where "t = (loop w 0x1F LOW)\<lparr>scan_found := False, scan_counter := 0\<rparr>"
  have h: "numPressed w" "decode_key (key w) (colData w) (numOdd w) = 0"
    by (simp_all add: w_def ISR_Row3_def Let_def booted_fields decode_key_def)
  note th = digit_zero_disables_watchdog [OF h, of "0x1F" t "0x1F"]
  have a: "kernal_num (loop w 0x1F LOW) = 1" "scan_active (loop w 0x1F LOW) = 0"
    "eeprom (loop w 0x1F LOW) ScanActiveSlot = 0"
    using th by (simp_all add: Let_def)
  have t0: "scan_active t = 0" "\<not> scan_found t" "scan_counter t \<le> 0" "kernal_num t = 1"
    "actions t = actions (loop w 0x1F LOW)"
    using a by (simp_all add: t_def)
  have b: "scan_found (loop_scan t 0x1F)" "kernal_num (loop_scan t 0x1F) = 1"
    "actions (loop_scan t 0x1F) = actions (loop w 0x1F LOW)"
    using th t0 by (simp_all add: Let_def)
  show ?thesis
    using h a t0(1) b unfolding t_def w_def by blast
qed

text \<open>The watchdog block does not look at the pending flag.\<close>

lemma loop_scan_numPressed:
  "loop_scan (s\<lparr>numPressed := b\<rparr>) p = (loop_scan s p)\<lparr>numPressed := b\<rparr>"
proof -
  consider (found) "scan_found s" | (act) "\<not> scan_found s" "p AND 0x1F \<noteq> 0x1F"
    | (count) "\<not> scan_found s" "p AND 0x1F = 0x1F" "scan_counter s > 0"
    | (timeout) "\<not> scan_found s" "p AND 0x1F = 0x1F" "\<not> scan_counter s > 0" "scan_active s = 1"
    | (inert) "\<not> scan_found s" "p AND 0x1F = 0x1F" "\<not> scan_counter s > 0" "scan_active s \<noteq> 1"
    by blast
  then show ?thesis
  proof cases
    case found
    then show ?thesis by (simp add: loop_scan_found)
  next
    case act
    then show ?thesis by (simp add: loop_scan_activity)
  next
    case count
    then show ?thesis by (simp add: loop_scan_countdown)
  next
    case timeout
    then show ?thesis by (simp add: loop_scan_timeout)
  next
    case inert
    then show ?thesis by (simp add: loop_scan_inert)
  qed
qed

text \<open>
  C4. An iteration that finds an event pending and reads the RESTORE pin high consumes
  the event and does nothing with it: compared with the state \<open>s1\<close> that the watchdog
  block of the same iteration left, \<open>kernal_num\<close>, \<open>scan_active\<close>, \<open>np_mode\<close>, the
  whole EEPROM, the pins and the watchdog are the same, and the only action added is
  the closing one-millisecond wait, so no reset sequence runs. The iteration ends in the
  same state as it would with no event pending. Where the watchdog was already
  satisfied, the three values and the EEPROM are those of the state \<open>s\<close> the iteration
  began in.
\<close>

theorem key_without_restore_discarded:
  assumes "numPressed s"
  shows "let s1 = loop_scan s pinc; s' = loop s pinc HIGH in
     kernal_num s' = kernal_num s1 \<and> scan_active s' = scan_active s1 \<and>
     np_mode s' = np_mode s1 \<and> eeprom s' = eeprom s1 \<and>
     pin_level s' = pin_level s1 \<and> pin_mode s' = pin_mode s1 \<and>
     scan_found s' = scan_found s1 \<and> scan_counter s' = scan_counter s1 \<and>
     actions s' = actions s1 @ [DelayMicroseconds 1000] \<and>
     \<not> numPressed s' \<and>
     s' = loop (s\<lparr>numPressed := False\<rparr>) pinc HIGH \<and>
     (scan_found s \<longrightarrow> kernal_num s' = kernal_num s \<and> scan_active s' = scan_active s \<and>
        np_mode s' = np_mode s \<and> eeprom s' = eeprom s \<and>
        actions s' = actions s @ [DelayMicroseconds 1000])"
  by (cases "scan_found s")
    (simp_all add: Let_def loop_released loop_scan_numPressed loop_scan_found)

text \<open>Key 5 with RESTORE not held: the bank stays 1, as booted.\<close>

theorem key_without_restore_discarded_witness:
  "numPressed (ISR_Row0 booted 0x1D) \<and> scan_found (ISR_Row0 booted 0x1D) \<and>
   kernal_num (loop (ISR_Row0 booted 0x1D) 0x1F HIGH) = 1 \<and>
   scan_active (loop (ISR_Row0 booted 0x1D) 0x1F HIGH) = 1 \<and>
   np_mode (loop (ISR_Row0 booted 0x1D) 0x1F HIGH) = 1 \<and>
   eeprom (loop (ISR_Row0 booted 0x1D) 0x1F HIGH) = eeprom booted \<and>
   actions (loop (ISR_Row0 booted 0x1D) 0x1F HIGH) = actions booted @ [DelayMicroseconds 1000]"
proof -
  have h: "numPressed (ISR_Row0 booted 0x1D)" "scan_found (ISR_Row0 booted 0x1D)"
    by (simp_all add: ISR_Row0_def Let_def booted_fields)
  have f: "kernal_num (ISR_Row0 booted 0x1D) = 1" "scan_active (ISR_Row0 booted 0x1D) = 1"
    "np_mode (ISR_Row0 booted 0x1D) = 1" "eeprom (ISR_Row0 booted 0x1D) = eeprom booted"
    "actions (ISR_Row0 booted 0x1D) = actions booted"
    by (simp_all add: ISR_Row0_def Let_def booted_fields)
  have "scan_found (ISR_Row0 booted 0x1D) \<longrightarrow>
      kernal_num (loop (ISR_Row0 booted 0x1D) 0x1F HIGH) = kernal_num (ISR_Row0 booted 0x1D) \<and>
      scan_active (loop (ISR_Row0 booted 0x1D) 0x1F HIGH) = scan_active (ISR_Row0 booted 0x1D) \<and>
      np_mode (loop (ISR_Row0 booted 0x1D) 0x1F HIGH) = np_mode (ISR_Row0 booted 0x1D) \<and>
      eeprom (loop (ISR_Row0 booted 0x1D) 0x1F HIGH) = eeprom (ISR_Row0 booted 0x1D) \<and>
      actions (loop (ISR_Row0 booted 0x1D) 0x1F HIGH)
        = actions (ISR_Row0 booted 0x1D) @ [DelayMicroseconds 1000]"
    using key_without_restore_discarded [OF h(1), of "0x1F"] unfolding Let_def by blast
  then show ?thesis
    using h f by simp
qed

text \<open>
  C8. An iteration that finds an event pending whose snapshot decodes to 9, with the
  RESTORE pin low, flips \<open>np_mode\<close> (1 becomes 0, anything else becomes 1), writes the
  new value to EEPROM offset 2 and runs the reset sequence around the video pulse;
  \<open>kernal_num\<close>, \<open>scan_active\<close> and EEPROM offsets 0 and 1 are as the watchdog block of
  the same iteration left them. If \<open>np_mode\<close> was 0 or 1 (as it is from boot on) and the
  next interrupt captures a 9 again, the iteration that consumes it, with RESTORE still
  low, brings \<open>np_mode\<close> and offset 2 back to the original value, and again leaves
  \<open>kernal_num\<close>, \<open>scan_active\<close> and offsets 0 and 1 alone.
\<close>

theorem digit_nine_toggles_video:
  assumes "numPressed s" "decode_key (key s) (colData s) (numOdd s) = 9"
  shows "let s1 = loop_scan s pinc; s' = loop s pinc LOW;
             s'' = loop (row_interrupt r s' p) pinc' LOW in
     np_mode s' = (if np_mode s = 1 then 0 else 1) \<and> eeprom s' NPModeSlot = np_mode s' \<and>
     kernal_num s' = kernal_num s1 \<and> scan_active s' = scan_active s1 \<and>
     eeprom s' KernalSlot = eeprom s1 KernalSlot \<and>
     eeprom s' ScanActiveSlot = eeprom s1 ScanActiveSlot \<and>
     actions s' = actions (loop_restore s1 LOW) @ [EepromWrite NPModeSlot (np_mode s')]
        @ reset_sequence (video_actions (np_mode s')) @ [DelayMicroseconds 1000] \<and>
     ((np_mode s = 0 \<or> np_mode s = 1) \<and> (r = Row0 \<or> r = Row3) \<and>
      p AND 0x1F \<noteq> 0x1F \<and> p AND 0x1F \<noteq> 0 \<and>
      decode_key 128 (p AND 0x1F) (r = Row0) = 9 \<longrightarrow>
        np_mode s'' = np_mode s \<and> eeprom s'' NPModeSlot = np_mode s \<and>
        kernal_num s'' = kernal_num s' \<and> scan_active s'' = scan_active s' \<and>
        eeprom s'' KernalSlot = eeprom s' KernalSlot \<and>
        eeprom s'' ScanActiveSlot = eeprom s' ScanActiveSlot)"
proof -
  define u where "u = loop_restore (loop_scan s pinc) LOW"
  have "numPressed u" "restore_found u" "decode_key (key u) (colData u) (numOdd u) = 9"
    using assms(1,2) by (simp_all add: u_def loop_restore_frame loop_scan_frame)
  note k1 = loop_key_nine [OF this]
  have u_np: "np_mode u = np_mode s" "kernal_num u = kernal_num (loop_scan s pinc)"
    "scan_active u = scan_active (loop_scan s pinc)" "eeprom u = eeprom (loop_scan s pinc)"
    by (simp_all add: u_def loop_restore_frame loop_scan_frame)
  define s' where "s' = loop s pinc LOW"
  have s': "s' = loop_key u" by (simp add: s'_def loop_def u_def)
  have f1: "np_mode s' = (if np_mode s = 1 then 0 else 1)" "eeprom s' NPModeSlot = np_mode s'"
    "kernal_num s' = kernal_num (loop_scan s pinc)" "scan_active s' = scan_active (loop_scan s pinc)"
    "eeprom s' KernalSlot = eeprom (loop_scan s pinc) KernalSlot"
    "eeprom s' ScanActiveSlot = eeprom (loop_scan s pinc) ScanActiveSlot"
    "actions s' = actions u @ [EepromWrite NPModeSlot (np_mode s')]
        @ reset_sequence (video_actions (np_mode s')) @ [DelayMicroseconds 1000]"
    "\<not> numPressed s'" "key s' = 128"
    unfolding s' k1 by (simp_all add: u_np)
  define s'' where "s'' = loop (row_interrupt r s' p) pinc' LOW"
  have f2: "np_mode s'' = np_mode s \<and> eeprom s'' NPModeSlot = np_mode s \<and>
        kernal_num s'' = kernal_num s' \<and> scan_active s'' = scan_active s' \<and>
        eeprom s'' KernalSlot = eeprom s' KernalSlot \<and>
        eeprom s'' ScanActiveSlot = eeprom s' ScanActiveSlot"
    if a: "np_mode s = 0 \<or> np_mode s = 1" "r = Row0 \<or> r = Row3"
      "p AND 0x1F \<noteq> 0x1F" "p AND 0x1F \<noteq> 0" "decode_key 128 (p AND 0x1F) (r = Row0) = 9"
  proof -
    define t where "t = row_interrupt r s' p"
    have t: "t = s'\<lparr>colData := p AND 0x1F, scan_found := True, numOdd := (r = Row0),
        numPressed := True\<rparr>"
      using a(2-4) f1(8) by (simp add: t_def row_interrupt_capture)
    define v where "v = loop_restore (loop_scan t pinc') LOW"
    have ts: "loop_scan t pinc' = t" by (simp add: t loop_scan_found)
    have "numPressed v" "restore_found v" "decode_key (key v) (colData v) (numOdd v) = 9"
      using a(5) f1(9) by (simp_all add: v_def loop_restore_frame ts) (simp_all add: t)
    note k2 = loop_key_nine [OF this]
    have v_f: "np_mode v = np_mode s'" "kernal_num v = kernal_num s'"
      "scan_active v = scan_active s'" "eeprom v = eeprom s'"
      by (simp_all add: v_def loop_restore_frame ts) (simp_all add: t)
    have s'': "s'' = loop_key v" by (simp add: s''_def loop_def v_def t_def)
    show ?thesis
      unfolding s'' k2 using a(1) by (auto simp: v_f f1(1))
  qed
  show ?thesis
    unfolding Let_def s'_def [symmetric] s''_def [symmetric]
    using f1(1-7) f2 unfolding u_def by blast
qed

text \<open>
  RESTORE held, key 9 twice: the row 0 interrupt sees column 4 low (\<open>0x17\<close>) after boot,
  and again after the first switch. The mode goes from 1 to 0 and back to 1.
\<close>

theorem digit_nine_toggles_video_witness:
  "numPressed (ISR_Row0 booted 0x17) \<and>
   decode_key (key (ISR_Row0 booted 0x17)) (colData (ISR_Row0 booted 0x17))
     (numOdd (ISR_Row0 booted 0x17)) = 9 \<and>
   np_mode (ISR_Row0 booted 0x17) = 1 \<and>
   (0x17 :: byte) AND 0x1F \<noteq> 0x1F \<and> (0x17 :: byte) AND 0x1F \<noteq> 0 \<and>
   decode_key 128 (0x17 AND 0x1F) (Row0 = Row0) = 9 \<and>
   np_mode (loop (ISR_Row0 booted 0x17) 0x1F LOW) = 0 \<and>
   eeprom (loop (ISR_Row0 booted 0x17) 0x1F LOW) NPModeSlot = 0 \<and>
   np_mode (loop (row_interrupt Row0 (loop (ISR_Row0 booted 0x17) 0x1F LOW) 0x17) 0x1F LOW) = 1 \<and>
   kernal_num (loop (row_interrupt Row0 (loop (ISR_Row0 booted 0x17) 0x1F LOW) 0x17) 0x1F LOW)
     = kernal_num (loop (ISR_Row0 booted 0x17) 0x1F LOW)"
proof -
  define w where "w = ISR_Row0 booted 0x17"
  have h: "numPressed w" "decode_key (key w) (colData w) (numOdd w) = 9"
    by (simp_all add: w_def ISR_Row0_def Let_def booted_fields decode_key_def)
  have n: "np_mode w = 1"
    by (simp add: w_def ISR_Row0_def Let_def booted_fields)
  have p: "(0x17 :: byte) AND 0x1F \<noteq> 0x1F" "(0x17 :: byte) AND 0x1F \<noteq> 0"
    "decode_key 128 (0x17 AND 0x1F) (Row0 = Row0) = 9"
    by (simp_all add: decode_key_def)
  note th = digit_nine_toggles_video [OF h, of "0x1F" Row0 "0x17" "0x1F", unfolded Let_def]
  have a: "np_mode (loop w 0x1F LOW) = 0" "eeprom (loop w 0x1F LOW) NPModeSlot = 0"
    using th n by simp_all
  have b: "np_mode (loop (row_interrupt Row0 (loop w 0x1F LOW) 0x17) 0x1F LOW) = 1"
    "kernal_num (loop (row_interrupt Row0 (loop w 0x1F LOW) 0x17) 0x1F LOW)
     = kernal_num (loop w 0x1F LOW)"
    using th n p by simp_all
  show ?thesis
    using h n p a b unfolding w_def by blast
qed

section \<open>The pending event\<close>

text \<open>
  C9. The pending event is one slot. When a row interrupt has captured a snapshot that
  passes the filter, a second row interrupt (either row, any port value) before the
  next iteration changes nothing at all: snapshot, row flag and pending flag are those
  of the first, the key that \<open>loop\<close> decodes is the decode of the first snapshot, and the
  iteration runs as if the second interrupt had not happened. In general a routine that
  finds the flag set returns the state as it is, and a routine that finds it clear sets
  it exactly when the masked snapshot is neither \<open>0x1F\<close> nor \<open>0\<close>.
\<close>

theorem second_interrupt_dropped:
  assumes "r1 = Row0 \<or> r1 = Row3" "\<not> numPressed s" "p1 AND 0x1F \<noteq> 0x1F" "p1 AND 0x1F \<noteq> 0"
  shows "(let s1 = row_interrupt r1 s p1; s2 = row_interrupt r2 s1 p2 in
       numPressed s1 \<and> s2 = s1 \<and>
       colData s2 = p1 AND 0x1F \<and> numOdd s2 = (r1 = Row0) \<and>
       decode_key (key s2) (colData s2) (numOdd s2) = decode_key (key s) (p1 AND 0x1F) (r1 = Row0) \<and>
       loop s2 pinc rp = loop s1 pinc rp)
     \<and> (numPressed t \<longrightarrow> ISR_Row0 t p = t \<and> ISR_Row3 t p = t)
     \<and> (\<not> numPressed t \<longrightarrow>
          numPressed (ISR_Row0 t p) = (p AND 0x1F \<noteq> 0x1F \<and> p AND 0x1F \<noteq> 0) \<and>
          numPressed (ISR_Row3 t p) = (p AND 0x1F \<noteq> 0x1F \<and> p AND 0x1F \<noteq> 0))"
proof -
  have 1: "numPressed (row_interrupt r1 s p1)"
    using assms by (simp add: row_interrupt_capture)
  have a: "let s1 = row_interrupt r1 s p1; s2 = row_interrupt r2 s1 p2 in
       numPressed s1 \<and> s2 = s1 \<and>
       colData s2 = p1 AND 0x1F \<and> numOdd s2 = (r1 = Row0) \<and>
       decode_key (key s2) (colData s2) (numOdd s2) = decode_key (key s) (p1 AND 0x1F) (r1 = Row0) \<and>
       loop s2 pinc rp = loop s1 pinc rp"
    using 1 assms by (simp add: Let_def row_interrupt_pending row_interrupt_capture)
  have b: "numPressed t \<longrightarrow> ISR_Row0 t p = t \<and> ISR_Row3 t p = t"
    by (simp add: ISR_Row0_def ISR_Row3_def)
  have c: "\<not> numPressed t \<longrightarrow>
          numPressed (ISR_Row0 t p) = (p AND 0x1F \<noteq> 0x1F \<and> p AND 0x1F \<noteq> 0) \<and>
          numPressed (ISR_Row3 t p) = (p AND 0x1F \<noteq> 0x1F \<and> p AND 0x1F \<noteq> 0)"
    by (simp add: ISR_Row0_def ISR_Row3_def Let_def)
  from a b c show ?thesis by blast
qed

text \<open>
  After boot, row 0 fires with column 2 low (key 5), then row 3 fires with column 4 low
  (key 0) before \<open>loop\<close> runs: the key decoded is 5.
\<close>

theorem second_interrupt_dropped_witness:
  "\<not> numPressed booted \<and> (0x1D :: byte) AND 0x1F \<noteq> 0x1F \<and> (0x1D :: byte) AND 0x1F \<noteq> 0 \<and>
   row_interrupt Row3 (row_interrupt Row0 booted 0x1D) 0x17 = row_interrupt Row0 booted 0x1D \<and>
   decode_key (key (row_interrupt Row3 (row_interrupt Row0 booted 0x1D) 0x17))
     (colData (row_interrupt Row3 (row_interrupt Row0 booted 0x1D) 0x17))
     (numOdd (row_interrupt Row3 (row_interrupt Row0 booted 0x1D) 0x17)) = 5"
proof -
  have h: "Row0 = Row0 \<or> Row0 = Row3" "\<not> numPressed booted"
    "(0x1D :: byte) AND 0x1F \<noteq> 0x1F" "(0x1D :: byte) AND 0x1F \<noteq> 0"
    by (simp_all add: booted_fields)
  have d: "decode_key (key booted) (0x1D AND 0x1F) (Row0 = Row0) = 5"
    by (simp add: decode_key_def booted_fields)
  note th = second_interrupt_dropped [OF h, of Row3 "0x17", unfolded Let_def]
  have a: "row_interrupt Row3 (row_interrupt Row0 booted 0x1D) 0x17 = row_interrupt Row0 booted 0x1D"
    using th by blast
  have b: "decode_key (key (row_interrupt Row3 (row_interrupt Row0 booted 0x1D) 0x17))
     (colData (row_interrupt Row3 (row_interrupt Row0 booted 0x1D) 0x17))
     (numOdd (row_interrupt Row3 (row_interrupt Row0 booted 0x1D) 0x17))
     = decode_key (key booted) (0x1D AND 0x1F) (Row0 = Row0)"
    using th by blast
  show ?thesis
    using h(2-4) a b d by simp
qed

section \<open>The RESTORE long press\<close>

lemma loop_key_cases:
  obtains (idle) "\<not> numPressed u \<or> \<not> restore_found u
        \<or> \<not> decode_key (key u) (colData u) (numOdd u) \<le> 9"
  | (zero) "numPressed u" "restore_found u" "decode_key (key u) (colData u) (numOdd u) = 0"
  | (nine) "numPressed u" "restore_found u" "decode_key (key u) (colData u) (numOdd u) = 9"
  | (bank) "numPressed u" "restore_found u" "decode_key (key u) (colData u) (numOdd u) \<noteq> 0"
      "decode_key (key u) (colData u) (numOdd u) \<noteq> 9"
      "decode_key (key u) (colData u) (numOdd u) \<le> 9"
  by blast

lemma loop_key_appends: "\<exists>post. actions (loop_key u) = actions u @ post"
proof (cases u rule: loop_key_cases)
  case idle
  then show ?thesis by (simp add: loop_key_idle)
next
  case zero
  then show ?thesis by (simp add: loop_key_zero)
next
  case nine
  then show ?thesis by (simp add: loop_key_nine)
next
  case bank
  from loop_key_bank [OF bank(1,2) refl bank(3-5)] show ?thesis by simp
qed

lemma loop_key_restore_counter: "restore_counter (loop_key u) = restore_counter u"
proof (cases u rule: loop_key_cases)
  case idle
  then show ?thesis by (simp add: loop_key_idle)
next
  case zero
  then show ?thesis by (simp add: loop_key_zero)
next
  case nine
  then show ?thesis by (simp add: loop_key_nine)
next
  case bank
  from loop_key_bank [OF bank(1,2) refl bank(3-5)] show ?thesis by simp
qed

text \<open>
  \<open>np_mode\<close> is 0 or 1 after \<open>setup_sketch\<close>, and stays so: only the key block assigns
  it, and only 0 or 1.
\<close>

lemma np_mode_setup:
  "np_mode (setup_sketch s) = 0 \<or> np_mode (setup_sketch s) = 1"
  by (simp add: setup_sketch_def setup_apply_frame setup_load_eq)

lemma np_mode_loop:
  assumes "np_mode s = 0 \<or> np_mode s = 1"
  shows "np_mode (loop s pinc rp) = 0 \<or> np_mode (loop s pinc rp) = 1"
proof -
  define u where "u = loop_restore (loop_scan s pinc) rp"
  have u: "np_mode u = np_mode s" by (simp add: u_def loop_restore_frame loop_scan_frame)
  have "np_mode (loop_key u) = 0 \<or> np_mode (loop_key u) = 1"
  proof (cases u rule: loop_key_cases)
    case idle
    then show ?thesis using assms u by (simp add: loop_key_idle)
  next
    case zero
    then show ?thesis using assms u by (simp add: loop_key_zero)
  next
    case nine
    then show ?thesis by (simp add: loop_key_nine)
  next
    case bank
    from loop_key_bank [OF bank(1,2) refl bank(3-5)] show ?thesis using assms u by simp
  qed
  then show ?thesis by (simp add: loop_def u_def)
qed

lemma np_mode_row_interrupt: "np_mode (row_interrupt r s p) = np_mode s"
  by (simp add: row_interrupt_def ISR_Row0_def ISR_Row3_def Let_def)

lemma loop_restore_counter:
  "restore_counter (loop s pinc rp) =
     (if rp = HIGH then Default_Restore_Count
      else if restore_counter s > 0 then restore_counter s - 1 else restore_counter s)"
  by (simp add: loop_def loop_key_restore_counter loop_restore_def Let_def systemRESET_eq
      systemUNRESET_eq delay_def loop_scan_frame)

lemma run_loop_held:
  "restore_counter s \<le> 0 \<Longrightarrow> \<forall>x\<in>set ins. snd x = LOW \<Longrightarrow>
   restore_counter (run_loop s ins) = restore_counter s"
proof (induction ins arbitrary: s)
  case Nil
  then show ?case by simp
next
  case (Cons x ins)
  obtain p r where x: "x = (p, r)" by (cases x)
  have r: "r = LOW" using Cons.prems(2) x by simp
  have c: "restore_counter (loop s p LOW) = restore_counter s"
    using Cons.prems(1) by (simp add: loop_restore_counter)
  have "restore_counter (run_loop (loop s p LOW) ins) = restore_counter (loop s p LOW)"
    using Cons.prems c by (intro Cons.IH) simp_all
  then show ?case by (simp add: x r c)
qed

text \<open>
  C10. Once \<open>restore_counter\<close> has run down, the RESTORE block of an iteration that
  reads the pin low runs \<^verbatim>\<open>systemRESET\<close>, the two-second wait and \<^verbatim>\<open>systemUNRESET\<close>,
  restores \<open>scan_counter\<close> and clears \<open>scan_found\<close> whatever \<open>scan_active\<close> is, and leaves
  \<open>restore_counter\<close> where it was. So does the whole iteration: its actions hold that
  sequence right after those of the watchdog block, and the counter is unchanged after
  it, and after any number of iterations that all read the pin low, each of which
  therefore resets again. An iteration that reads the pin high sets the counter to its
  default, and from a run-down counter no other iteration does.
\<close>

theorem restore_hold_resets_every_tick:
  assumes "restore_counter s \<le> 0"
  shows "(let s' = loop_restore s LOW in
       restore_counter s' = restore_counter s \<and> restore_found s' \<and>
       actions s' = actions s @ systemRESET_actions @ [Delay 2000] @ systemUNRESET_actions \<and>
       scan_counter s' = Default_Scan_Count \<and> \<not> scan_found s' \<and>
       scan_active s' = scan_active s)
     \<and> restore_counter (loop s pinc LOW) = restore_counter s
     \<and> (\<exists>post. actions (loop s pinc LOW) = actions (loop_scan s pinc)
           @ systemRESET_actions @ [Delay 2000] @ systemUNRESET_actions @ post)
     \<and> ((\<forall>x\<in>set ins. snd x = LOW) \<longrightarrow> restore_counter (run_loop s ins) = restore_counter s)
     \<and> restore_counter (loop s pinc HIGH) = Default_Restore_Count
     \<and> (restore_counter (loop s pinc rp) = Default_Restore_Count \<longrightarrow> rp = HIGH)"
proof -
  have n: "\<not> restore_counter s > 0" using assms by simp
  have l: "LOW \<noteq> HIGH" by simp
  note e = loop_restore_expired [OF l n]
  have a: "let s' = loop_restore s LOW in
       restore_counter s' = restore_counter s \<and> restore_found s' \<and>
       actions s' = actions s @ systemRESET_actions @ [Delay 2000] @ systemUNRESET_actions \<and>
       scan_counter s' = Default_Scan_Count \<and> \<not> scan_found s' \<and>
       scan_active s' = scan_active s"
    unfolding e by simp
  have n1: "\<not> restore_counter (loop_scan s pinc) > 0" using n by (simp add: loop_scan_frame)
  obtain post where "actions (loop_key (loop_restore (loop_scan s pinc) LOW))
      = actions (loop_restore (loop_scan s pinc) LOW) @ post"
    using loop_key_appends by blast
  then have b: "\<exists>post. actions (loop s pinc LOW) = actions (loop_scan s pinc)
           @ systemRESET_actions @ [Delay 2000] @ systemUNRESET_actions @ post"
    by (simp add: loop_def loop_restore_expired [OF l n1])
  have c: "restore_counter (loop s pinc rp) = Default_Restore_Count \<longrightarrow> rp = HIGH"
    using assms by (auto simp: loop_restore_counter)
  have d: "restore_counter (loop s pinc LOW) = restore_counter s"
    using n by (simp add: loop_restore_counter)
  have f: "restore_counter (loop s pinc HIGH) = Default_Restore_Count"
    by (simp add: loop_restore_counter)
  have g: "(\<forall>x\<in>set ins. snd x = LOW) \<longrightarrow> restore_counter (run_loop s ins) = restore_counter s"
    using run_loop_held [OF assms] by blast
  show ?thesis
    by (intro conjI a b c d f g)
qed

text \<open>
  RESTORE held from power-on: the counter starts at 0 (line 99) and \<^verbatim>\<open>setup()\<close> does not
  touch it, so the first three iterations all find it run down.
\<close>

theorem restore_hold_resets_every_tick_witness:
  "restore_counter booted \<le> 0 \<and>
   restore_counter (loop booted 0x1F LOW) = 0 \<and>
   restore_counter (run_loop booted [(0x1F, LOW), (0x1F, LOW), (0x1F, LOW)]) = 0 \<and>
   actions (loop_restore booted LOW)
     = actions booted @ systemRESET_actions @ [Delay 2000] @ systemUNRESET_actions \<and>
   restore_counter (loop booted 0x1F HIGH) = Default_Restore_Count"
proof -
  have h: "restore_counter booted \<le> 0" by (simp add: booted_fields)
  note th = restore_hold_resets_every_tick [OF h, of "0x1F" "[(0x1F, LOW), (0x1F, LOW), (0x1F, LOW)]",
      unfolded Let_def]
  have a: "restore_counter (loop booted 0x1F LOW) = restore_counter booted"
    "actions (loop_restore booted LOW)
       = actions booted @ systemRESET_actions @ [Delay 2000] @ systemUNRESET_actions"
    "restore_counter (loop booted 0x1F HIGH) = Default_Restore_Count"
    using th by blast+
  have "(\<forall>x\<in>set [(0x1F :: byte, LOW), (0x1F, LOW), (0x1F, LOW)]. snd x = LOW) \<longrightarrow>
      restore_counter (run_loop booted [(0x1F, LOW), (0x1F, LOW), (0x1F, LOW)])
        = restore_counter booted"
    using th by blast
  then have b: "restore_counter (run_loop booted [(0x1F, LOW), (0x1F, LOW), (0x1F, LOW)])
        = restore_counter booted"
    by simp
  show ?thesis
    using h a b by (simp add: booted_fields)
qed

section \<open>Boot\<close>

text \<open>
  C5. Whatever the EEPROM holds at power-on, after \<^verbatim>\<open>setup()\<close> the three values are in
  range: \<open>kernal_num\<close> in 1..8, \<open>scan_active\<close> and \<open>np_mode\<close> in {0, 1}. Each is the stored
  byte when that byte is in range and 1 otherwise; the EEPROM then holds the three
  values at offsets 0, 1 and 2 and is unchanged elsewhere; and the EEPROM writes that
  \<^verbatim>\<open>setup()\<close> performed are exactly one write of 1 for each stored byte that was out of
  range, in the order of the offsets, and none for a byte in range.
\<close>

theorem boot_validation:
  "let s = setup_sketch (power_on ee);
       ok0 = (1 \<le> ee KernalSlot \<and> ee KernalSlot \<le> 8);
       ok1 = (ee ScanActiveSlot = 0 \<or> ee ScanActiveSlot = 1);
       ok2 = (ee NPModeSlot = 0 \<or> ee NPModeSlot = 1)
   in 1 \<le> kernal_num s \<and> kernal_num s \<le> 8 \<and>
      (scan_active s = 0 \<or> scan_active s = 1) \<and> (np_mode s = 0 \<or> np_mode s = 1) \<and>
      kernal_num s = (if ok0 then ee KernalSlot else 1) \<and>
      scan_active s = (if ok1 then ee ScanActiveSlot else 1) \<and>
      np_mode s = (if ok2 then ee NPModeSlot else 1) \<and>
      eeprom s = ee(KernalSlot := kernal_num s, ScanActiveSlot := scan_active s,
                    NPModeSlot := np_mode s) \<and>
      filter is_eeprom_write (actions s) =
        (if ok0 then [] else [EepromWrite KernalSlot 1]) @
        (if ok1 then [] else [EepromWrite ScanActiveSlot 1]) @
        (if ok2 then [] else [EepromWrite NPModeSlot 1])"
proof -
  have p: "eeprom (setup_pins (power_on ee)) = ee"
    "filter is_eeprom_write (actions (setup_pins (power_on ee))) = []"
    by (simp_all add: setup_pins_eq power_on_def filter_writes)
  have w: "(1 \<le> x \<and> x \<le> 8) = (\<not> (x = 0 \<or> 8 < x))" for x :: byte
  proof -
    have "(x = 0) = (\<not> 1 \<le> x)" by (simp add: not_le)
    moreover have "(8 < x) = (\<not> x \<le> 8)" by (simp add: not_le)
    ultimately show ?thesis by blast
  qed
  show ?thesis
    unfolding setup_sketch_def Let_def setup_apply_frame
    by (simp add: setup_load_eq p w)
qed

text \<open>An erased EEPROM (every byte \<open>0xFF\<close>): all three values become 1, with three writes.\<close>

theorem boot_validation_witness:
  "kernal_num (setup_sketch (power_on erased_eeprom)) = 1 \<and>
   scan_active (setup_sketch (power_on erased_eeprom)) = 1 \<and>
   np_mode (setup_sketch (power_on erased_eeprom)) = 1 \<and>
   filter is_eeprom_write (actions (setup_sketch (power_on erased_eeprom))) =
     [EepromWrite KernalSlot 1, EepromWrite ScanActiveSlot 1, EepromWrite NPModeSlot 1]"
  using boot_validation [of erased_eeprom]
  by (simp add: Let_def erased_eeprom_def)

section \<open>The reset lines\<close>

lemma pins_at_delays_kernal:
  "map reset_lines (pins_at_delays (reset_sequence (address_actions a)) (pm, pl)) =
     [((INPUT, HIGH), (OUTPUT, LOW)), ((INPUT, HIGH), (OUTPUT, LOW)),
      ((OUTPUT, LOW), (OUTPUT, LOW)), ((OUTPUT, LOW), (INPUT, HIGH))]"
  by (simp add: reset_sequence_def systemRESET_actions_def systemUNRESET_actions_def
      address_actions_def reset_lines_def)

lemma pins_at_delays_video:
  "map reset_lines (pins_at_delays (reset_sequence (video_actions m)) (pm, pl)) =
     [((INPUT, HIGH), (OUTPUT, LOW)), ((INPUT, HIGH), (OUTPUT, LOW)), ((INPUT, HIGH), (OUTPUT, LOW)),
      ((OUTPUT, LOW), (OUTPUT, LOW)), ((OUTPUT, LOW), (INPUT, HIGH))]"
  by (cases "m = 0")
     (simp_all add: reset_sequence_def systemRESET_actions_def systemUNRESET_actions_def
      video_actions_def reset_lines_def)

lemma pins_after_kernal:
  "pins_after (reset_sequence (address_actions a)) (pm, pl) =
    (pm(C64RES := OUTPUT, EXROMRES := INPUT),
     pl(KSW_A13 := bit_level a 0, KSW_A14 := bit_level a 1, KSW_A15 := bit_level a 2,
        C64RES := LOW, EXROMRES := HIGH))"
  by (simp add: reset_sequence_def systemRESET_actions_def systemUNRESET_actions_def
      address_actions_def pl_kernal)

lemma pins_after_video:
  "pins_after (reset_sequence (video_actions m)) (pm, pl) =
    (pm(C64RES := OUTPUT, EXROMRES := INPUT),
     pl(NeN := LOW, PeN := LOW, C64RES := LOW, EXROMRES := HIGH))"
  by (cases "m = 0")
     (simp_all add: reset_sequence_def systemRESET_actions_def systemUNRESET_actions_def
      video_actions_def fun_eq_iff)

text \<open>
  C7, as the code has it. The claim says that both reset lines are outputs exactly while
  asserted. That holds for the EXROM reset line and fails for the host reset line:
  \<^verbatim>\<open>systemRESET\<close> writes \<^verbatim>\<open>C64RES\<close> high (asserted, see Note 1 of the source) and makes
  it an input, and \<^verbatim>\<open>systemUNRESET\<close> writes it low and makes it an output.

  The counterexample: after boot, \<^verbatim>\<open>systemRESET\<close> leaves \<^verbatim>\<open>C64RES\<close> written high and not
  an output, and the \<^verbatim>\<open>systemUNRESET\<close> that follows leaves it written low and not an
  input.
\<close>

theorem host_reset_direction_counterexample:
  "pin_level (systemRESET booted) C64RES = HIGH \<and>
   pin_mode (systemRESET booted) C64RES \<noteq> OUTPUT \<and>
   pin_level (systemUNRESET (systemRESET booted)) C64RES = LOW \<and>
   pin_mode (systemUNRESET (systemRESET booted)) C64RES \<noteq> INPUT"
  by (simp add: systemRESET_eq systemUNRESET_eq)

lemma pin_step_primitives:
  "(pin_mode (pinMode p m s), pin_level (pinMode p m s))
     = pin_step (PinMode p m) (pin_mode s, pin_level s)"
  "(pin_mode (digitalWrite p v s), pin_level (digitalWrite p v s))
     = pin_step (DigitalWrite p v) (pin_mode s, pin_level s)"
  "(pin_mode (delay ms s), pin_level (delay ms s)) = pin_step (Delay ms) (pin_mode s, pin_level s)"
  by (simp_all add: pinMode_def digitalWrite_def delay_def)

lemma pins_trace_kernal:
  "map reset_lines (pins_trace (reset_sequence (address_actions a)) (pm, pl)) =
     [((pm C64RES, HIGH), (pm EXROMRES, pl EXROMRES)),
      ((INPUT, HIGH), (pm EXROMRES, pl EXROMRES)),
      ((INPUT, HIGH), (pm EXROMRES, pl EXROMRES)),
      ((INPUT, HIGH), (pm EXROMRES, LOW)),
      ((INPUT, HIGH), (OUTPUT, LOW)),
      ((INPUT, HIGH), (OUTPUT, LOW))]
     @ replicate 3 ((INPUT, HIGH), (OUTPUT, LOW))
     @ [((INPUT, HIGH), (OUTPUT, LOW)),
        ((INPUT, HIGH), (OUTPUT, LOW)),
        ((INPUT, LOW), (OUTPUT, LOW)),
        ((OUTPUT, LOW), (OUTPUT, LOW)),
        ((OUTPUT, LOW), (OUTPUT, LOW)),
        ((OUTPUT, LOW), (OUTPUT, LOW)),
        ((OUTPUT, LOW), (OUTPUT, HIGH)),
        ((OUTPUT, LOW), (INPUT, HIGH)),
        ((OUTPUT, LOW), (INPUT, HIGH)),
        ((OUTPUT, LOW), (INPUT, HIGH))]"
  by (simp add: reset_sequence_def systemRESET_actions_def systemUNRESET_actions_def
      address_actions_def reset_lines_def numeral_3_eq_3)

lemma pins_trace_video:
  "map reset_lines (pins_trace (reset_sequence (video_actions m)) (pm, pl)) =
     [((pm C64RES, HIGH), (pm EXROMRES, pl EXROMRES)),
      ((INPUT, HIGH), (pm EXROMRES, pl EXROMRES)),
      ((INPUT, HIGH), (pm EXROMRES, pl EXROMRES)),
      ((INPUT, HIGH), (pm EXROMRES, LOW)),
      ((INPUT, HIGH), (OUTPUT, LOW)),
      ((INPUT, HIGH), (OUTPUT, LOW))]
     @ replicate 4 ((INPUT, HIGH), (OUTPUT, LOW))
     @ [((INPUT, HIGH), (OUTPUT, LOW)),
        ((INPUT, HIGH), (OUTPUT, LOW)),
        ((INPUT, LOW), (OUTPUT, LOW)),
        ((OUTPUT, LOW), (OUTPUT, LOW)),
        ((OUTPUT, LOW), (OUTPUT, LOW)),
        ((OUTPUT, LOW), (OUTPUT, LOW)),
        ((OUTPUT, LOW), (OUTPUT, HIGH)),
        ((OUTPUT, LOW), (INPUT, HIGH)),
        ((OUTPUT, LOW), (INPUT, HIGH)),
        ((OUTPUT, LOW), (INPUT, HIGH))]"
  by (cases "m = 0")
     (simp_all add: reset_sequence_def systemRESET_actions_def systemUNRESET_actions_def
      video_actions_def reset_lines_def numeral_eq_Suc)

text \<open>
  The idle configuration of the two lines, \<^verbatim>\<open>C64RES\<close> an output written low and
  \<^verbatim>\<open>EXROMRES\<close> an input written high, is what \<open>setup_sketch\<close> ends with, and every
  block of \<open>loop\<close> and every interrupt routine keeps it.
\<close>

lemma idle_setup:
  "reset_lines (pin_mode (setup_sketch s), pin_level (setup_sketch s))
     = ((OUTPUT, LOW), (INPUT, HIGH))"
  by (simp add: setup_sketch_def setup_apply_def Let_def systemRESET_eq systemUNRESET_eq
      SetAddressBits_eq SetVideoBits_eq attachInterrupt_def reset_lines_def)

lemma idle_loop_scan:
  assumes "reset_lines (pin_mode s, pin_level s) = ((OUTPUT, LOW), (INPUT, HIGH))"
  shows "reset_lines (pin_mode (loop_scan s p), pin_level (loop_scan s p))
     = ((OUTPUT, LOW), (INPUT, HIGH))"
proof -
  consider (found) "scan_found s" | (act) "\<not> scan_found s" "p AND 0x1F \<noteq> 0x1F"
    | (count) "\<not> scan_found s" "p AND 0x1F = 0x1F" "scan_counter s > 0"
    | (timeout) "\<not> scan_found s" "p AND 0x1F = 0x1F" "\<not> scan_counter s > 0" "scan_active s = 1"
    | (inert) "\<not> scan_found s" "p AND 0x1F = 0x1F" "\<not> scan_counter s > 0" "scan_active s \<noteq> 1"
    by blast
  then show ?thesis
  proof cases
    case found
    then show ?thesis using assms by (simp add: loop_scan_found)
  next
    case act
    then show ?thesis using assms by (simp add: loop_scan_activity reset_lines_def)
  next
    case count
    then show ?thesis using assms by (simp add: loop_scan_countdown reset_lines_def)
  next
    case timeout
    then show ?thesis by (simp add: loop_scan_timeout reset_lines_def)
  next
    case inert
    then show ?thesis using assms by (simp add: loop_scan_inert reset_lines_def)
  qed
qed

lemma idle_loop_restore:
  assumes "reset_lines (pin_mode s, pin_level s) = ((OUTPUT, LOW), (INPUT, HIGH))"
  shows "reset_lines (pin_mode (loop_restore s rp), pin_level (loop_restore s rp))
     = ((OUTPUT, LOW), (INPUT, HIGH))"
proof -
  consider (released) "rp = HIGH" | (held) "rp \<noteq> HIGH" "restore_counter s > 0"
    | (expired) "rp \<noteq> HIGH" "\<not> restore_counter s > 0"
    by blast
  then show ?thesis
  proof cases
    case released
    then show ?thesis using assms by (simp add: loop_restore_released reset_lines_def)
  next
    case held
    then show ?thesis using assms by (simp add: loop_restore_held reset_lines_def)
  next
    case expired
    then show ?thesis by (simp add: loop_restore_expired reset_lines_def)
  qed
qed

lemma idle_loop_key:
  assumes "reset_lines (pin_mode u, pin_level u) = ((OUTPUT, LOW), (INPUT, HIGH))"
  shows "reset_lines (pin_mode (loop_key u), pin_level (loop_key u))
     = ((OUTPUT, LOW), (INPUT, HIGH))"
proof (cases u rule: loop_key_cases)
  case idle
  then show ?thesis using assms by (simp add: loop_key_idle reset_lines_def)
next
  case zero
  then show ?thesis by (simp add: loop_key_zero reset_lines_def)
next
  case nine
  then show ?thesis by (simp add: loop_key_nine reset_lines_def)
next
  case bank
  from loop_key_bank [OF bank(1,2) refl bank(3-5)] show ?thesis by (simp add: reset_lines_def)
qed

lemma idle_loop:
  assumes "reset_lines (pin_mode s, pin_level s) = ((OUTPUT, LOW), (INPUT, HIGH))"
  shows "reset_lines (pin_mode (loop s p rp), pin_level (loop s p rp))
     = ((OUTPUT, LOW), (INPUT, HIGH))"
  unfolding loop_def by (intro idle_loop_key idle_loop_restore idle_loop_scan assms)

lemma idle_row_interrupt:
  "reset_lines (pin_mode (row_interrupt r s p), pin_level (row_interrupt r s p))
     = reset_lines (pin_mode s, pin_level s)"
  by (simp add: row_interrupt_def ISR_Row0_def ISR_Row3_def Let_def)

text \<open>
  C7, amended. Both runs of the reset sequencer, \<^verbatim>\<open>SwitchKernal\<close> and \<^verbatim>\<open>SwitchVideo\<close>,
  append the reset sequence to the actions, and the pins they end with are the pins
  that replaying that sequence gives. The theorem lists the direction and written level
  of \<^verbatim>\<open>C64RES\<close> and of \<^verbatim>\<open>EXROMRES\<close> after every single action of the sequence, from any
  starting configuration. The directions change at the four \<^verbatim>\<open>pinMode\<close> calls only, each
  directly after the \<^verbatim>\<open>digitalWrite\<close> that sets the line's new level:
  \<^item> \<^verbatim>\<open>C64RES\<close> (asserted when written high) is an input from the \<^verbatim>\<open>pinMode\<close> of
    \<^verbatim>\<open>systemRESET\<close> (entry 2) until the \<^verbatim>\<open>pinMode\<close> of \<^verbatim>\<open>systemUNRESET\<close>, and an output
    from then on;
  \<^item> \<^verbatim>\<open>EXROMRES\<close> (asserted when written low) is an output from the \<^verbatim>\<open>pinMode\<close> of
    \<^verbatim>\<open>systemRESET\<close> (entry 5) until the \<^verbatim>\<open>pinMode\<close> of \<^verbatim>\<open>systemUNRESET\<close>, and an input
    from then on.
  So at every busy wait of a run (the \<open>pins_at_delays\<close> lists) \<^verbatim>\<open>C64RES\<close> is an input
  exactly when it is written high and \<^verbatim>\<open>EXROMRES\<close> is an output exactly when it is
  written low. The other pairing occurs only in the one step, with no wait in it,
  between a level write and the \<^verbatim>\<open>pinMode\<close> that follows: \<^verbatim>\<open>EXROMRES\<close> still in its
  old direction and already written low (entry 4), \<^verbatim>\<open>C64RES\<close> still an input and
  already written low, \<^verbatim>\<open>EXROMRES\<close> still an output and already written high; and, in
  entry 1, \<^verbatim>\<open>C64RES\<close> in its old direction and already written high. The configuration
  a run starts from is the idle one, \<^verbatim>\<open>C64RES\<close> an output written low and \<^verbatim>\<open>EXROMRES\<close>
  an input written high: \<open>setup_sketch\<close> ends with it, and every iteration of \<open>loop\<close> and
  every interrupt routine keeps it. What \<^verbatim>\<open>systemRESET\<close> and \<^verbatim>\<open>systemUNRESET\<close> leave is
  the same from any state.
\<close>

theorem reset_lines_direction:
  "actions (SwitchKernal s) = actions s @ reset_sequence (address_actions (kernal_addr s)) \<and>
   (pin_mode (SwitchKernal s), pin_level (SwitchKernal s)) =
      pins_after (reset_sequence (address_actions (kernal_addr s))) (pin_mode s, pin_level s) \<and>
   map reset_lines (pins_at_delays (reset_sequence (address_actions (kernal_addr s)))
        (pin_mode s, pin_level s)) =
     [((INPUT, HIGH), (OUTPUT, LOW)), ((INPUT, HIGH), (OUTPUT, LOW)),
      ((OUTPUT, LOW), (OUTPUT, LOW)), ((OUTPUT, LOW), (INPUT, HIGH))] \<and>
   actions (SwitchVideo s) = actions s @ reset_sequence (video_actions (np_mode s)) \<and>
   (pin_mode (SwitchVideo s), pin_level (SwitchVideo s)) =
      pins_after (reset_sequence (video_actions (np_mode s))) (pin_mode s, pin_level s) \<and>
   map reset_lines (pins_at_delays (reset_sequence (video_actions (np_mode s)))
        (pin_mode s, pin_level s)) =
     [((INPUT, HIGH), (OUTPUT, LOW)), ((INPUT, HIGH), (OUTPUT, LOW)), ((INPUT, HIGH), (OUTPUT, LOW)),
      ((OUTPUT, LOW), (OUTPUT, LOW)), ((OUTPUT, LOW), (INPUT, HIGH))] \<and>
   reset_lines (pin_mode (systemRESET s), pin_level (systemRESET s)) =
     ((INPUT, HIGH), (OUTPUT, LOW)) \<and>
   reset_lines (pin_mode (systemUNRESET s), pin_level (systemUNRESET s)) =
     ((OUTPUT, LOW), (INPUT, HIGH)) \<and>
   map reset_lines (pins_trace (reset_sequence (address_actions (kernal_addr s)))
        (pin_mode s, pin_level s)) =
     [((pin_mode s C64RES, HIGH), (pin_mode s EXROMRES, pin_level s EXROMRES)),
      ((INPUT, HIGH), (pin_mode s EXROMRES, pin_level s EXROMRES)),
      ((INPUT, HIGH), (pin_mode s EXROMRES, pin_level s EXROMRES)),
      ((INPUT, HIGH), (pin_mode s EXROMRES, LOW)),
      ((INPUT, HIGH), (OUTPUT, LOW)),
      ((INPUT, HIGH), (OUTPUT, LOW))]
     @ replicate 3 ((INPUT, HIGH), (OUTPUT, LOW))
     @ [((INPUT, HIGH), (OUTPUT, LOW)),
        ((INPUT, HIGH), (OUTPUT, LOW)),
        ((INPUT, LOW), (OUTPUT, LOW)),
        ((OUTPUT, LOW), (OUTPUT, LOW)),
        ((OUTPUT, LOW), (OUTPUT, LOW)),
        ((OUTPUT, LOW), (OUTPUT, LOW)),
        ((OUTPUT, LOW), (OUTPUT, HIGH)),
        ((OUTPUT, LOW), (INPUT, HIGH)),
        ((OUTPUT, LOW), (INPUT, HIGH)),
        ((OUTPUT, LOW), (INPUT, HIGH))] \<and>
   map reset_lines (pins_trace (reset_sequence (video_actions (np_mode s)))
        (pin_mode s, pin_level s)) =
     [((pin_mode s C64RES, HIGH), (pin_mode s EXROMRES, pin_level s EXROMRES)),
      ((INPUT, HIGH), (pin_mode s EXROMRES, pin_level s EXROMRES)),
      ((INPUT, HIGH), (pin_mode s EXROMRES, pin_level s EXROMRES)),
      ((INPUT, HIGH), (pin_mode s EXROMRES, LOW)),
      ((INPUT, HIGH), (OUTPUT, LOW)),
      ((INPUT, HIGH), (OUTPUT, LOW))]
     @ replicate 4 ((INPUT, HIGH), (OUTPUT, LOW))
     @ [((INPUT, HIGH), (OUTPUT, LOW)),
        ((INPUT, HIGH), (OUTPUT, LOW)),
        ((INPUT, LOW), (OUTPUT, LOW)),
        ((OUTPUT, LOW), (OUTPUT, LOW)),
        ((OUTPUT, LOW), (OUTPUT, LOW)),
        ((OUTPUT, LOW), (OUTPUT, LOW)),
        ((OUTPUT, LOW), (OUTPUT, HIGH)),
        ((OUTPUT, LOW), (INPUT, HIGH)),
        ((OUTPUT, LOW), (INPUT, HIGH)),
        ((OUTPUT, LOW), (INPUT, HIGH))] \<and>
   reset_lines (pin_mode (setup_sketch s0), pin_level (setup_sketch s0)) =
     ((OUTPUT, LOW), (INPUT, HIGH)) \<and>
   (reset_lines (pin_mode s, pin_level s) = ((OUTPUT, LOW), (INPUT, HIGH)) \<longrightarrow>
      reset_lines (pin_mode (loop s pinc rp), pin_level (loop s pinc rp))
        = ((OUTPUT, LOW), (INPUT, HIGH)) \<and>
      reset_lines (pin_mode (row_interrupt r s p), pin_level (row_interrupt r s p))
        = ((OUTPUT, LOW), (INPUT, HIGH)))"
proof -
  have a: "actions (SwitchKernal s) = actions s @ reset_sequence (address_actions (kernal_addr s))"
    "(pin_mode (SwitchKernal s), pin_level (SwitchKernal s)) =
      pins_after (reset_sequence (address_actions (kernal_addr s))) (pin_mode s, pin_level s)"
    "actions (SwitchVideo s) = actions s @ reset_sequence (video_actions (np_mode s))"
    "(pin_mode (SwitchVideo s), pin_level (SwitchVideo s)) =
      pins_after (reset_sequence (video_actions (np_mode s))) (pin_mode s, pin_level s)"
    by (simp_all add: SwitchKernal_eq SwitchVideo_eq pins_after_kernal pins_after_video)
  have b: "reset_lines (pin_mode (systemRESET s), pin_level (systemRESET s)) =
     ((INPUT, HIGH), (OUTPUT, LOW))"
    "reset_lines (pin_mode (systemUNRESET s), pin_level (systemUNRESET s)) =
     ((OUTPUT, LOW), (INPUT, HIGH))"
    by (simp_all add: systemRESET_eq systemUNRESET_eq reset_lines_def)
  have c: "reset_lines (pin_mode s, pin_level s) = ((OUTPUT, LOW), (INPUT, HIGH)) \<longrightarrow>
      reset_lines (pin_mode (loop s pinc rp), pin_level (loop s pinc rp))
        = ((OUTPUT, LOW), (INPUT, HIGH)) \<and>
      reset_lines (pin_mode (row_interrupt r s p), pin_level (row_interrupt r s p))
        = ((OUTPUT, LOW), (INPUT, HIGH))"
    by (simp add: idle_loop idle_row_interrupt)
  show ?thesis
    by (intro conjI a b c pins_at_delays_kernal pins_at_delays_video pins_trace_kernal
        pins_trace_video idle_setup)
qed

text \<open>
  The first bank switch after boot: the run starts idle, so entry 1 is \<^verbatim>\<open>C64RES\<close> an
  output written high and entries 1 to 3 have \<^verbatim>\<open>EXROMRES\<close> an input written high.
\<close>

theorem reset_lines_direction_witness:
  "reset_lines (pin_mode booted, pin_level booted) = ((OUTPUT, LOW), (INPUT, HIGH)) \<and>
   reset_lines (pin_mode (loop booted 0x1F LOW), pin_level (loop booted 0x1F LOW))
     = ((OUTPUT, LOW), (INPUT, HIGH)) \<and>
   map reset_lines (pins_trace (reset_sequence (address_actions (kernal_addr booted)))
        (pin_mode booted, pin_level booted)) =
     [((OUTPUT, HIGH), (INPUT, HIGH)),
      ((INPUT, HIGH), (INPUT, HIGH)),
      ((INPUT, HIGH), (INPUT, HIGH)),
      ((INPUT, HIGH), (INPUT, LOW)),
      ((INPUT, HIGH), (OUTPUT, LOW)),
      ((INPUT, HIGH), (OUTPUT, LOW)),
      ((INPUT, HIGH), (OUTPUT, LOW)),
      ((INPUT, HIGH), (OUTPUT, LOW)),
      ((INPUT, HIGH), (OUTPUT, LOW)),
      ((INPUT, HIGH), (OUTPUT, LOW)),
      ((INPUT, HIGH), (OUTPUT, LOW)),
      ((INPUT, LOW), (OUTPUT, LOW)),
      ((OUTPUT, LOW), (OUTPUT, LOW)),
      ((OUTPUT, LOW), (OUTPUT, LOW)),
      ((OUTPUT, LOW), (OUTPUT, LOW)),
      ((OUTPUT, LOW), (OUTPUT, HIGH)),
      ((OUTPUT, LOW), (INPUT, HIGH)),
      ((OUTPUT, LOW), (INPUT, HIGH)),
      ((OUTPUT, LOW), (INPUT, HIGH))]"
proof -
  note th = reset_lines_direction [of booted "power_on erased_eeprom" "0x1F" LOW Row0 "0x1F"]
  have i: "reset_lines (pin_mode booted, pin_level booted) = ((OUTPUT, LOW), (INPUT, HIGH))"
    using th unfolding booted_def by blast
  then have f: "pin_mode booted C64RES = OUTPUT" "pin_mode booted EXROMRES = INPUT"
    "pin_level booted EXROMRES = HIGH"
    by (simp_all add: reset_lines_def)
  have l: "reset_lines (pin_mode (loop booted 0x1F LOW), pin_level (loop booted 0x1F LOW))
     = ((OUTPUT, LOW), (INPUT, HIGH))"
    using th i by blast
  have t: "map reset_lines (pins_trace (reset_sequence (address_actions (kernal_addr booted)))
        (pin_mode booted, pin_level booted)) =
     [((pin_mode booted C64RES, HIGH), (pin_mode booted EXROMRES, pin_level booted EXROMRES)),
      ((INPUT, HIGH), (pin_mode booted EXROMRES, pin_level booted EXROMRES)),
      ((INPUT, HIGH), (pin_mode booted EXROMRES, pin_level booted EXROMRES)),
      ((INPUT, HIGH), (pin_mode booted EXROMRES, LOW)),
      ((INPUT, HIGH), (OUTPUT, LOW)),
      ((INPUT, HIGH), (OUTPUT, LOW))]
     @ replicate 3 ((INPUT, HIGH), (OUTPUT, LOW))
     @ [((INPUT, HIGH), (OUTPUT, LOW)),
        ((INPUT, HIGH), (OUTPUT, LOW)),
        ((INPUT, LOW), (OUTPUT, LOW)),
        ((OUTPUT, LOW), (OUTPUT, LOW)),
        ((OUTPUT, LOW), (OUTPUT, LOW)),
        ((OUTPUT, LOW), (OUTPUT, LOW)),
        ((OUTPUT, LOW), (OUTPUT, HIGH)),
        ((OUTPUT, LOW), (INPUT, HIGH)),
        ((OUTPUT, LOW), (INPUT, HIGH)),
        ((OUTPUT, LOW), (INPUT, HIGH))]"
    using th by blast
  show ?thesis
    using i l by (simp add: t f numeral_3_eq_3)
qed

end
